theory Spec2Isabelle
  imports Complex_Main
begin

section \<open>Python numbers\<close>

text \<open>
  The billing code and the progress property compute with Python \<open>int\<close> (unbounded) and
  Python \<open>float\<close> (IEEE 754 binary64, round to nearest, ties to even).  A finite float is
  kept as mantissa and exponent, \<open>Finite m e\<close> standing for \<open>m * 2 ^ e\<close>, in the one
  form the format stores: \<open>\<bar>m\<bar> < 2 ^ 53\<close>, \<open>- 1074 \<le> e \<le> 971\<close>, and
  \<open>2 ^ 52 \<le> \<bar>m\<bar>\<close> unless \<open>e = - 1074\<close>.  Two finite floats are therefore equal in
  Python exactly when their models are equal.  The sign of zero is not kept: \<open>-0.0\<close> and
  \<open>0.0\<close> compare equal and are both false.
\<close>

datatype py_error = OverflowError | ZeroDivisionError | TypeError | KeyError

datatype pyfloat = Finite int int | PosInf | NegInf | NaN

datatype pynum = PyInt int | PyFloat pyfloat

text \<open>\<open>int.bit_length\<close>: the number of binary digits of a natural number.\<close>

fun bit_length :: "nat \<Rightarrow> nat" where
  "bit_length n = (if n = 0 then 0 else 1 + bit_length (n div 2))"

declare bit_length.simps [simp del]

text \<open>The quotient \<open>a / b\<close> (with \<open>0 < b\<close>) rounded to the nearest integer, ties to even.\<close>

definition div_half_even :: "int \<Rightarrow> int \<Rightarrow> int" where
  "div_half_even a b =
     (let q = a div b; r = a mod b
      in if 2 * r < b then q else if b < 2 * r then q + 1 else if even q then q else q + 1)"

text \<open>The binary exponent of \<open>a / b\<close> for positive \<open>a\<close> and \<open>b\<close>: the \<open>k\<close> with
  \<open>2 ^ k \<le> a / b < 2 ^ (k + 1)\<close>.\<close>

definition ilog2_ratio :: "int \<Rightarrow> int \<Rightarrow> int" where
  "ilog2_ratio a b =
     (let d = int (bit_length (nat a)) - int (bit_length (nat b))
      in if (if 0 \<le> d then b * 2 ^ nat d \<le> a else b \<le> a * 2 ^ nat (- d)) then d else d - 1)"

text \<open>
  The float nearest to the exact quotient \<open>a / b\<close> (with \<open>0 < b\<close>): 53 significant bits,
  or fewer below \<open>2 ^ - 1022\<close>; a result of \<open>2 ^ 1024\<close> or more is an infinity.
\<close>

definition binary64_exponent :: "int \<Rightarrow> int \<Rightarrow> int" where
  "binary64_exponent a b = max (ilog2_ratio \<bar>a\<bar> b) (- 1022) - 52"

definition binary64_mantissa :: "int \<Rightarrow> int \<Rightarrow> int \<Rightarrow> int" where
  "binary64_mantissa a b t =
     (if 0 \<le> t then div_half_even \<bar>a\<bar> (b * 2 ^ nat t)
      else div_half_even (\<bar>a\<bar> * 2 ^ nat (- t)) b)"

definition binary64_pack :: "int \<Rightarrow> int \<Rightarrow> int \<Rightarrow> pyfloat" where
  "binary64_pack s m t =
     (if 971 < t then (if 0 < s then PosInf else NegInf) else Finite (s * m) t)"

definition round_to_binary64 :: "int \<Rightarrow> int \<Rightarrow> pyfloat" where
  "round_to_binary64 a b =
     (if a = 0 then Finite 0 (- 1074)
      else let t = binary64_exponent a b;
               m = binary64_mantissa a b t
           in if m = 2 ^ 53 then binary64_pack (sgn a) (2 ^ 52) (t + 1)
              else binary64_pack (sgn a) m t)"

text \<open>The float nearest to \<open>m * 2 ^ e\<close>.\<close>

definition round_scaled :: "int \<Rightarrow> int \<Rightarrow> pyfloat" where
  "round_scaled m e =
     (if 0 \<le> e then round_to_binary64 (m * 2 ^ nat e) 1 else round_to_binary64 m (2 ^ nat (- e)))"

text \<open>A decimal literal of the source, written as a quotient: \<open>0.15\<close> is
  \<open>float_literal 15 100\<close>.\<close>

definition float_literal :: "int \<Rightarrow> int \<Rightarrow> pyfloat" where
  "float_literal a b = round_to_binary64 a b"

text \<open>The conversion of an \<open>int\<close> operand of a mixed \<open>int\<close>/\<open>float\<close> operation; it raises
  \<open>OverflowError\<close> ("int too large to convert to float") where the nearest float is not
  finite.\<close>

definition long_as_double :: "int \<Rightarrow> py_error + pyfloat" where
  "long_as_double n =
     (case round_to_binary64 n 1 of
        Finite m e \<Rightarrow> Inr (Finite m e)
      | _ \<Rightarrow> Inl OverflowError)"

fun float_mul :: "pyfloat \<Rightarrow> pyfloat \<Rightarrow> pyfloat" where
  "float_mul (Finite m1 e1) (Finite m2 e2) = round_scaled (m1 * m2) (e1 + e2)"
| "float_mul NaN y = NaN"
| "float_mul x NaN = NaN"
| "float_mul (Finite m e) PosInf = (if m = 0 then NaN else if 0 < m then PosInf else NegInf)"
| "float_mul (Finite m e) NegInf = (if m = 0 then NaN else if 0 < m then NegInf else PosInf)"
| "float_mul PosInf (Finite m e) = (if m = 0 then NaN else if 0 < m then PosInf else NegInf)"
| "float_mul NegInf (Finite m e) = (if m = 0 then NaN else if 0 < m then NegInf else PosInf)"
| "float_mul PosInf PosInf = PosInf"
| "float_mul PosInf NegInf = NegInf"
| "float_mul NegInf PosInf = NegInf"
| "float_mul NegInf NegInf = PosInf"

fun float_sub :: "pyfloat \<Rightarrow> pyfloat \<Rightarrow> pyfloat" where
  "float_sub (Finite m1 e1) (Finite m2 e2) =
     (let e = min e1 e2 in round_scaled (m1 * 2 ^ nat (e1 - e) - m2 * 2 ^ nat (e2 - e)) e)"
| "float_sub NaN y = NaN"
| "float_sub x NaN = NaN"
| "float_sub (Finite m e) PosInf = NegInf"
| "float_sub (Finite m e) NegInf = PosInf"
| "float_sub PosInf (Finite m e) = PosInf"
| "float_sub NegInf (Finite m e) = NegInf"
| "float_sub PosInf PosInf = NaN"
| "float_sub PosInf NegInf = PosInf"
| "float_sub NegInf PosInf = NegInf"
| "float_sub NegInf NegInf = NaN"

text \<open>
  \<open>round(x, 2)\<close> on a float: the exact value of \<open>x\<close> is rounded to two decimals, ties
  to even, and the decimal result is read back as the nearest float; infinities and NaN
  round to themselves.  On an \<open>int\<close>, \<open>round(i, 2)\<close> is \<open>i\<close>.
\<close>

fun float_round2 :: "pyfloat \<Rightarrow> pyfloat" where
  "float_round2 (Finite m e) =
     round_to_binary64
       (if 0 \<le> e then 100 * m * 2 ^ nat e
        else sgn m * div_half_even (100 * \<bar>m\<bar>) (2 ^ nat (- e))) 100"
| "float_round2 x = x"

fun py_round2 :: "pynum \<Rightarrow> pynum" where
  "py_round2 (PyInt i) = PyInt i"
| "py_round2 (PyFloat x) = PyFloat (float_round2 x)"

text \<open>The truth value of a float: zero is false, everything else (NaN too) is true.\<close>

fun float_bool :: "pyfloat \<Rightarrow> bool" where
  "float_bool (Finite m e) = (m \<noteq> 0)"
| "float_bool x = True"

text \<open>
  Arithmetic on numbers.  \<open>int\<close> with \<open>int\<close> is exact.  Where one operand is a \<open>float\<close>, the
  \<open>int\<close> operand is converted first, which raises \<open>OverflowError\<close> for an integer too
  large for a float.  An \<open>int\<close> is true unless it is 0.
\<close>

fun py_mul :: "pynum \<Rightarrow> pynum \<Rightarrow> py_error + pynum" where
  "py_mul (PyInt a) (PyInt b) = Inr (PyInt (a * b))"
| "py_mul (PyInt a) (PyFloat y) =
     (case long_as_double a of Inl err \<Rightarrow> Inl err | Inr x \<Rightarrow> Inr (PyFloat (float_mul x y)))"
| "py_mul (PyFloat x) (PyInt b) =
     (case long_as_double b of Inl err \<Rightarrow> Inl err | Inr y \<Rightarrow> Inr (PyFloat (float_mul x y)))"
| "py_mul (PyFloat x) (PyFloat y) = Inr (PyFloat (float_mul x y))"

fun py_sub :: "pynum \<Rightarrow> pynum \<Rightarrow> py_error + pynum" where
  "py_sub (PyInt a) (PyInt b) = Inr (PyInt (a - b))"
| "py_sub (PyInt a) (PyFloat y) =
     (case long_as_double a of Inl err \<Rightarrow> Inl err | Inr x \<Rightarrow> Inr (PyFloat (float_sub x y)))"
| "py_sub (PyFloat x) (PyInt b) =
     (case long_as_double b of Inl err \<Rightarrow> Inl err | Inr y \<Rightarrow> Inr (PyFloat (float_sub x y)))"
| "py_sub (PyFloat x) (PyFloat y) = Inr (PyFloat (float_sub x y))"

fun py_bool :: "pynum \<Rightarrow> bool" where
  "py_bool (PyInt i) = (i \<noteq> 0)"
| "py_bool (PyFloat x) = float_bool x"

section \<open>Billing: \<open>StripeService.calculate_project_cost\<close>\<close>

record pricing_tier =
  price_per_annotation :: pyfloat
  min_annotations :: int
  max_annotations :: "int option"
  features :: "string list"

definition pricing_tiers :: "(string \<times> pricing_tier) list" where
  "pricing_tiers =
     [(''starter'',
       \<lparr>price_per_annotation = float_literal 15 100, min_annotations = 1,
        max_annotations = Some 1000,
        features = [''Basic annotation tools'', ''Standard quality control'', ''Email support'']\<rparr>),
      (''professional'',
       \<lparr>price_per_annotation = float_literal 12 100, min_annotations = 1001,
        max_annotations = Some 10000,
        features = [''Advanced annotation tools'', ''Enhanced quality control'',
                    ''Priority support'', ''API access'']\<rparr>),
      (''enterprise'',
       \<lparr>price_per_annotation = float_literal 10 100, min_annotations = 10001,
        max_annotations = None,
        features = [''Custom annotation workflows'', ''Dedicated quality team'',
                    ''24/7 support'', ''Custom integrations'']\<rparr>)]"

text \<open>
  The annotation count is an \<open>int\<close>.  The custom rate is \<open>None\<close> or a number, an \<open>int\<close> or
  a \<open>float\<close>; with an \<open>int\<close> rate the cost before discount, the rate and the subtotal
  stay \<open>int\<close>s, so these fields of the result hold either kind of number.
\<close>

record cost_breakdown =
  annotation_count :: int
  tier :: string
  rate_per_annotation :: pynum
  subtotal :: pynum
  discount_percentage :: pynum
  discount_amount :: pynum
  total_cost :: pynum
  currency :: string

text \<open>\<open>if custom_rate:\<close> takes the custom branch when the argument is neither \<open>None\<close>
  nor zero.\<close>

definition custom_rate_given :: "pynum option \<Rightarrow> pynum option" where
  "custom_rate_given custom_rate =
     (case custom_rate of
        None \<Rightarrow> None
      | Some c \<Rightarrow> if py_bool c then Some c else None)"

definition select_tier :: "int \<Rightarrow> string" where
  "select_tier n =
     (if n \<le> 1000 then ''starter''
      else if n \<le> 10000 then ''professional''
      else ''enterprise'')"

text \<open>Lines 120 to 134: the cost before discount, the tier and the rate.\<close>

definition base_cost :: "int \<Rightarrow> pynum option \<Rightarrow> py_error + (pynum \<times> string \<times> pynum)" where
  "base_cost n custom_rate =
     (case custom_rate_given custom_rate of
        Some c \<Rightarrow>
          (case py_mul (PyInt n) c of
             Inl err \<Rightarrow> Inl err
           | Inr cost \<Rightarrow> Inr (cost, ''custom'', c))
      | None \<Rightarrow>
          (case map_of pricing_tiers (select_tier n) of
             None \<Rightarrow> Inl KeyError
           | Some entry \<Rightarrow>
               (case py_mul (PyInt n) (PyFloat (price_per_annotation entry)) of
                  Inl err \<Rightarrow> Inl err
                | Inr cost \<Rightarrow>
                    Inr (cost, select_tier n, PyFloat (price_per_annotation entry)))))"

text \<open>The three statements of a discount branch: the percentage \<open>p\<close>, the amount
  \<open>total_cost * p\<close> and the cost \<open>total_cost - discount_amount\<close>.\<close>

definition discounted :: "pynum \<Rightarrow> pyfloat \<Rightarrow> py_error + (pynum \<times> pynum \<times> pynum)" where
  "discounted cost p =
     (case py_mul cost (PyFloat p) of
        Inl err \<Rightarrow> Inl err
      | Inr amount \<Rightarrow>
          (case py_sub cost amount of
             Inl err \<Rightarrow> Inl err
           | Inr rest \<Rightarrow> Inr (PyFloat p, amount, rest)))"

text \<open>Lines 136 to 151: the discount percentage, the discount amount and the cost after
  discount.\<close>

definition volume_discount :: "int \<Rightarrow> pynum \<Rightarrow> py_error + (pynum \<times> pynum \<times> pynum)" where
  "volume_discount n cost =
     (if n > 50000 then discounted cost (float_literal 15 100)
      else if n > 25000 then discounted cost (float_literal 10 100)
      else if n > 10000 then discounted cost (float_literal 5 100)
      else Inr (PyInt 0, PyInt 0, cost))"

text \<open>The body of the \<open>try\<close> block; \<open>calculate_project_cost\<close> turns every exception into
  \<open>None\<close>.\<close>

definition project_cost_body :: "int \<Rightarrow> pynum option \<Rightarrow> py_error + cost_breakdown" where
  "project_cost_body n custom_rate =
     (case base_cost n custom_rate of
        Inl err \<Rightarrow> Inl err
      | Inr (cost, tier_name, rate) \<Rightarrow>
          (case volume_discount n cost of
             Inl err \<Rightarrow> Inl err
           | Inr (percentage, amount, rest) \<Rightarrow>
               (case py_mul (PyInt n) rate of
                  Inl err \<Rightarrow> Inl err
                | Inr sub \<Rightarrow>
                    Inr \<lparr>annotation_count = n, tier = tier_name, rate_per_annotation = rate,
                         subtotal = sub, discount_percentage = percentage,
                         discount_amount = py_round2 amount,
                         total_cost = py_round2 rest, currency = ''usd''\<rparr>)))"

definition calculate_project_cost :: "int \<Rightarrow> pynum option \<Rightarrow> cost_breakdown option" where
  "calculate_project_cost n custom_rate =
     (case project_cost_body n custom_rate of Inl err \<Rightarrow> None | Inr r \<Rightarrow> Some r)"

section \<open>Progress of a project: \<open>Project.progress_percentage\<close>\<close>

text \<open>
  The three progress counters of \<open>models/project.py\<close> are integer columns with default 0
  and no \<open>nullable=False\<close>, so each may hold \<open>None\<close>.  The other columns are not read by
  the property.
\<close>

record project =
  project_id :: int
  project_organization_id :: int
  total_items :: "int option"
  completed_items :: "int option"
  approved_items :: "int option"

text \<open>\<open>a / b\<close> on two \<open>int\<close>s: the float nearest to the exact quotient.  It raises
  \<open>ZeroDivisionError\<close> for \<open>b = 0\<close> and \<open>OverflowError\<close> where the quotient is too large
  for a float.\<close>

definition py_true_div :: "int \<Rightarrow> int \<Rightarrow> py_error + pyfloat" where
  "py_true_div a b =
     (if b = 0 then Inl ZeroDivisionError
      else case round_to_binary64 (sgn b * a) \<bar>b\<bar> of
             Finite m e \<Rightarrow> Inr (Finite m e)
           | _ \<Rightarrow> Inl OverflowError)"

text \<open>\<open>x * n\<close> for a \<open>float\<close> \<open>x\<close> and an \<open>int\<close> \<open>n\<close>.\<close>

definition float_times_int :: "pyfloat \<Rightarrow> int \<Rightarrow> py_error + pyfloat" where
  "float_times_int x n =
     (case long_as_double n of Inl err \<Rightarrow> Inl err | Inr f \<Rightarrow> Inr (float_mul x f))"

text \<open>\<open>None == 0\<close> is false, and \<open>/\<close> with a \<open>None\<close> operand raises \<open>TypeError\<close>.\<close>

definition progress_percentage :: "project \<Rightarrow> py_error + pynum" where
  "progress_percentage p =
     (if total_items p = Some 0 then Inr (PyInt 0)
      else case (completed_items p, total_items p) of
             (Some c, Some t) \<Rightarrow>
               (case py_true_div c t of
                  Inl err \<Rightarrow> Inl err
                | Inr q \<Rightarrow>
                    (case float_times_int q 100 of
                       Inl err \<Rightarrow> Inl err
                     | Inr x \<Rightarrow> Inr (PyFloat x)))
           | _ \<Rightarrow> Inl TypeError)"

section \<open>Python strings\<close>

text \<open>
  A string is the list of its characters, each a code point below 256 (the Latin-1 range
  of Unicode); strings with other characters are outside the model.  \<open>str.strip\<close> removes
  from both ends the characters for which \<open>str.isspace\<close> holds: the controls \<open>0x09\<close> to
  \<open>0x0D\<close> and \<open>0x1C\<close> to \<open>0x1F\<close>, the space, \<open>0x85\<close> and the no-break space \<open>0xA0\<close>.
  \<open>str.lower\<close> maps \<open>A\<close> to \<open>Z\<close> and the capital letters \<open>0xC0\<close> to \<open>0xDE\<close>, without the
  multiplication sign \<open>0xD7\<close>, to the letter 32 places further on.  The classes \<open>[A-Z]\<close>,
  \<open>[a-z]\<close> and \<open>\d\<close> of \<open>re\<close> hold in this range for the ASCII letters and digits only.
\<close>

definition is_space :: "char \<Rightarrow> bool" where
  "is_space c = (c \<in> set [CHR 0x09, CHR 0x0A, CHR 0x0B, CHR 0x0C, CHR 0x0D,
                            CHR 0x1C, CHR 0x1D, CHR 0x1E, CHR 0x1F, CHR 0x20,
                            CHR 0x85, CHR 0xA0])"

definition py_strip :: "string \<Rightarrow> string" where
  "py_strip s = rev (dropWhile is_space (rev (dropWhile is_space s)))"

definition is_upper :: "char \<Rightarrow> bool" where
  "is_upper c = (c \<in> set ''ABCDEFGHIJKLMNOPQRSTUVWXYZ'')"

definition is_lower :: "char \<Rightarrow> bool" where
  "is_lower c = (c \<in> set ''abcdefghijklmnopqrstuvwxyz'')"

definition is_digit :: "char \<Rightarrow> bool" where
  "is_digit c = (c \<in> set ''0123456789'')"

definition upper_letters :: string where
  "upper_letters =
     ''ABCDEFGHIJKLMNOPQRSTUVWXYZ'' @
     [CHR 0xC0, CHR 0xC1, CHR 0xC2, CHR 0xC3, CHR 0xC4, CHR 0xC5, CHR 0xC6, CHR 0xC7,
      CHR 0xC8, CHR 0xC9, CHR 0xCA, CHR 0xCB, CHR 0xCC, CHR 0xCD, CHR 0xCE, CHR 0xCF,
      CHR 0xD0, CHR 0xD1, CHR 0xD2, CHR 0xD3, CHR 0xD4, CHR 0xD5, CHR 0xD6,
      CHR 0xD8, CHR 0xD9, CHR 0xDA, CHR 0xDB, CHR 0xDC, CHR 0xDD, CHR 0xDE]"

definition lower_letters :: string where
  "lower_letters =
     ''abcdefghijklmnopqrstuvwxyz'' @
     [CHR 0xE0, CHR 0xE1, CHR 0xE2, CHR 0xE3, CHR 0xE4, CHR 0xE5, CHR 0xE6, CHR 0xE7,
      CHR 0xE8, CHR 0xE9, CHR 0xEA, CHR 0xEB, CHR 0xEC, CHR 0xED, CHR 0xEE, CHR 0xEF,
      CHR 0xF0, CHR 0xF1, CHR 0xF2, CHR 0xF3, CHR 0xF4, CHR 0xF5, CHR 0xF6,
      CHR 0xF8, CHR 0xF9, CHR 0xFA, CHR 0xFB, CHR 0xFC, CHR 0xFD, CHR 0xFE]"

definition lower_char :: "char \<Rightarrow> char" where
  "lower_char c =
     (case map_of (zip upper_letters lower_letters) c of
        None \<Rightarrow> c
      | Some l \<Rightarrow> l)"

definition py_lower :: "string \<Rightarrow> string" where
  "py_lower s = map lower_char s"

text \<open>\<open>repr\<close> of a string without quotes or backslashes, as in the text of an exception.\<close>

definition quoted :: "string \<Rightarrow> string" where
  "quoted s = [CHR 0x27] @ s @ [CHR 0x27]"

section \<open>Request bodies\<close>

text \<open>
  \<open>request.get_json()\<close> gives the parsed body: \<open>None\<close>, a \<open>bool\<close>, an \<open>int\<close>, a \<open>float\<close>, a
  \<open>str\<close>, a \<open>list\<close> or a \<open>dict\<close> with string keys.  \<open>JObject\<close> holds the items of the dict;
  a key is looked up with \<open>map_of\<close>, so where a list names a key twice the first item is
  the one in the dict.  The routes are modelled for requests whose body parses.
\<close>

datatype json =
    JNull
  | JBool bool
  | JInt int
  | JFloat pyfloat
  | JStr string
  | JArray "json list"
  | JObject "(string \<times> json) list"

fun type_name :: "json \<Rightarrow> string" where
  "type_name JNull = ''NoneType''"
| "type_name (JBool b) = ''bool''"
| "type_name (JInt i) = ''int''"
| "type_name (JFloat x) = ''float''"
| "type_name (JStr s) = ''str''"
| "type_name (JArray xs) = ''list''"
| "type_name (JObject items) = ''dict''"

text \<open>The truth value of an object in a condition.\<close>

fun truthy :: "json \<Rightarrow> bool" where
  "truthy JNull = False"
| "truthy (JBool b) = b"
| "truthy (JInt i) = (i \<noteq> 0)"
| "truthy (JFloat x) = float_bool x"
| "truthy (JStr s) = (s \<noteq> [])"
| "truthy (JArray xs) = (xs \<noteq> [])"
| "truthy (JObject items) = (items \<noteq> [])"

text \<open>
  An exception is kept as its text, what \<open>str(e)\<close> gives in the handlers of the routes.
  \<open>no_attribute v name\<close> is the text of the \<open>AttributeError\<close> for \<open>v.name\<close>, \<open>subscript\<close> is
  \<open>data[key]\<close> with its \<open>KeyError\<close>, \<open>str_strip\<close> is the call \<open>v.strip()\<close>, \<open>py_len\<close> is
  \<open>len(v)\<close>.
\<close>

definition no_attribute :: "json \<Rightarrow> string \<Rightarrow> string" where
  "no_attribute v name = quoted (type_name v) @ '' object has no attribute '' @ quoted name"

definition subscript :: "(string \<rightharpoonup> json) \<Rightarrow> string \<Rightarrow> string + json" where
  "subscript data key = (case data key of None \<Rightarrow> Inl (quoted key) | Some v \<Rightarrow> Inr v)"

definition str_strip :: "json \<Rightarrow> string + string" where
  "str_strip v = (case v of JStr s \<Rightarrow> Inr (py_strip s) | _ \<Rightarrow> Inl (no_attribute v ''strip''))"

definition py_len :: "json \<Rightarrow> string + nat" where
  "py_len v =
     (case v of
        JStr s \<Rightarrow> Inr (length s)
      | JArray xs \<Rightarrow> Inr (length xs)
      | JObject items \<Rightarrow> Inr (length (remdups (map fst items)))
      | _ \<Rightarrow> Inl (''object of type '' @ quoted (type_name v) @ '' has no len()''))"

text \<open>\<open>data.get(key)\<close> is the map lookup; it is false in a condition when the key is absent
  or its value is false.  \<open>data.get(key, default)\<close> is \<open>data_get\<close>, for a body and for a
  form alike.\<close>

definition falsy :: "json option \<Rightarrow> bool" where
  "falsy v = (case v of None \<Rightarrow> True | Some x \<Rightarrow> \<not> truthy x)"

definition data_get :: "('k \<rightharpoonup> 'v) \<Rightarrow> 'k \<Rightarrow> 'v \<Rightarrow> 'v" where
  "data_get data key dflt = (case data key of None \<Rightarrow> dflt | Some v \<Rightarrow> v)"

section \<open>Accounts: \<open>models/user.py\<close>, \<open>models/organization.py\<close>, \<open>routes/auth.py\<close>\<close>

text \<open>
  The columns that registration and login read or write.  The column \<open>id\<close> is \<open>user_id\<close>
  for a user and \<open>org_id\<close> for an organization, whose \<open>name\<close> and \<open>is_active\<close> are
  \<open>org_name\<close> and \<open>org_is_active\<close>.  Times are seconds on a clock.  A table is the list
  of its rows in the order of insertion.  Requests run one after the other, and the
  database accepts every insert that the checks of the route let through.
\<close>

datatype user_role = ADMIN | CLIENT_ADMIN | PROJECT_MANAGER | LABELER | REVIEWER | CLIENT_USER

record user =
  user_id :: int
  username :: string
  email :: string
  password_hash :: string
  first_name :: string
  last_name :: string
  phone :: string
  role :: user_role
  organization_id :: "int option"
  is_active :: bool
  is_verified :: bool
  created_at :: nat
  last_login :: "nat option"
  last_activity :: "nat option"

record organization =
  org_id :: int
  org_name :: string
  contact_email :: string
  org_is_active :: bool

record database =
  users :: "user list"
  organizations :: "organization list"

text \<open>
  What the routes call in other packages.  \<open>werkzeug.security\<close> gives the password hash
  and its check; either is handed the password of the request as it came, and may raise
  (\<open>Inl\<close> with the text of the exception) where it is no string.  \<open>jwt.encode\<close> gives the
  token, over the user id, the role, the organization id and the expiry time.
  \<open>re_type_error\<close> is the text of the \<open>TypeError\<close> that \<open>re.search\<close> raises for an argument
  that is no string; it differs between versions of Python.
\<close>

record library =
  generate_password_hash :: "json \<Rightarrow> string + string"
  check_password_hash :: "string \<Rightarrow> json \<Rightarrow> string + bool"
  jwt_encode :: "int \<Rightarrow> user_role \<Rightarrow> int option \<Rightarrow> nat \<Rightarrow> string"
  re_type_error :: "json \<Rightarrow> string"

record response =
  status :: nat
  message :: string
  response_user :: "user option"
  token :: "string option"

definition message_response :: "nat \<Rightarrow> string \<Rightarrow> response" where
  "message_response code msg =
     \<lparr>status = code, message = msg, response_user = None, token = None\<rparr>"

text \<open>The pattern \<open>^[a-zA-Z0-9._%+-]+@[a-zA-Z0-9.-]+\.[a-zA-Z]{2,}$\<close>.  Neither class
  contains \<open>@\<close>, and the last class contains no dot, so a match splits the string at its
  first \<open>@\<close> and at the last dot after it.\<close>

definition is_alnum :: "char \<Rightarrow> bool" where
  "is_alnum c = (is_upper c \<or> is_lower c \<or> is_digit c)"

definition local_char :: "char \<Rightarrow> bool" where
  "local_char c = (is_alnum c \<or> c \<in> set ''._%+-'')"

definition domain_char :: "char \<Rightarrow> bool" where
  "domain_char c = (is_alnum c \<or> c \<in> set ''.-'')"

definition email_pattern :: "string \<Rightarrow> bool" where
  "email_pattern s =
     (let local = takeWhile (\<lambda>c. c \<noteq> CHR ''@'') s;
          rest = drop (Suc (length local)) s;
          tld = rev (takeWhile (\<lambda>c. c \<noteq> CHR ''.'') (rev rest));
          dom = take (length rest - Suc (length tld)) rest
      in length local < length s \<and> local \<noteq> [] \<and> list_all local_char local \<and>
         length tld < length rest \<and> dom \<noteq> [] \<and> list_all domain_char dom \<and>
         2 \<le> length tld \<and> list_all (\<lambda>c. is_upper c \<or> is_lower c) tld)"

text \<open>\<open>$\<close> also matches before a newline that ends the string.\<close>

definition validate_email :: "string \<Rightarrow> bool" where
  "validate_email s =
     (email_pattern s \<or> (s \<noteq> [] \<and> last s = CHR 0x0A \<and> email_pattern (butlast s)))"

text \<open>\<open>validate_password\<close> is handed the password of the request as it came.  \<open>len\<close> raises
  for a number, a \<open>bool\<close> or \<open>None\<close>; a list or a dict of eight or more entries gets past
  \<open>len\<close> and \<open>re.search\<close> raises.\<close>

definition validate_password :: "library \<Rightarrow> json \<Rightarrow> string + (bool \<times> string)" where
  "validate_password lib password =
     (case py_len password of
        Inl err \<Rightarrow> Inl err
      | Inr n \<Rightarrow>
          if n < 8 then Inr (False, ''Password must be at least 8 characters long'')
          else case password of
                 JStr s \<Rightarrow>
                   Inr (if \<not> list_ex is_upper s
                          then (False, ''Password must contain at least one uppercase letter'')
                        else if \<not> list_ex is_lower s
                          then (False, ''Password must contain at least one lowercase letter'')
                        else if \<not> list_ex is_digit s
                          then (False, ''Password must contain at least one number'')
                        else (True, ''Password is valid''))
               | _ \<Rightarrow> Inl (re_type_error lib password))"

fun first_missing :: "(string \<rightharpoonup> json) \<Rightarrow> string list \<Rightarrow> string option" where
  "first_missing data [] = None"
| "first_missing data (k # ks) =
     (if falsy (data k) then Some k else first_missing data ks)"

definition generate_token :: "library \<Rightarrow> nat \<Rightarrow> user \<Rightarrow> string" where
  "generate_token lib now u = jwt_encode lib (user_id u) (role u) (organization_id u) (now + 3600)"

definition find_by_username :: "database \<Rightarrow> string \<Rightarrow> user option" where
  "find_by_username db name = find (\<lambda>u. username u = name) (users db)"

definition find_by_email :: "database \<Rightarrow> string \<Rightarrow> user option" where
  "find_by_email db mail = find (\<lambda>u. email u = mail) (users db)"

definition next_user_id :: "database \<Rightarrow> int" where
  "next_user_id db = fold max (map user_id (users db)) 0 + 1"

definition next_org_id :: "database \<Rightarrow> int" where
  "next_org_id db = fold max (map org_id (organizations db)) 0 + 1"

text \<open>A stretch of a route ends in an exception, in a \<open>return\<close>, or goes on with a value.\<close>

datatype 'a outcome = Raises string | Returns response | Value 'a

text \<open>Lines 84 to 100 of \<open>register\<close>, for a body that is a dict: the required fields and
  the two validations.  The value is the user name, the email and the password.\<close>

definition register_validate ::
  "library \<Rightarrow> (string \<rightharpoonup> json) \<Rightarrow> (string \<times> string \<times> json) outcome" where
  "register_validate lib data =
     (case first_missing data [''username'', ''email'', ''password''] of
        Some k \<Rightarrow> Returns (message_response 400 (k @ '' is required''))
      | None \<Rightarrow>
          case subscript data ''username'' of Inl err \<Rightarrow> Raises err | Inr u \<Rightarrow>
          case str_strip u of Inl err \<Rightarrow> Raises err | Inr name \<Rightarrow>
          case subscript data ''email'' of Inl err \<Rightarrow> Raises err | Inr e \<Rightarrow>
          case str_strip e of Inl err \<Rightarrow> Raises err | Inr stripped \<Rightarrow>
          case subscript data ''password'' of Inl err \<Rightarrow> Raises err | Inr password \<Rightarrow>
            if \<not> validate_email (py_lower stripped)
              then Returns (message_response 400 ''Invalid email format'')
            else case validate_password lib password of
                   Inl err \<Rightarrow> Raises err
                 | Inr (False, msg) \<Rightarrow> Returns (message_response 400 msg)
                 | Inr (True, msg) \<Rightarrow> Value (name, py_lower stripped, password))"

text \<open>Lines 110 to 136 of \<open>register\<close>, with the exceptions of the four \<open>strip\<close> calls and
  of \<open>set_password\<close> in the order of the code.  The new rows get the next free ids; the
  organization, when there is one, and the user are written by the one \<open>commit\<close>.\<close>

definition register_rows ::
  "library \<Rightarrow> nat \<Rightarrow> (string \<rightharpoonup> json) \<Rightarrow> database \<Rightarrow> string \<Rightarrow> string \<Rightarrow> json \<Rightarrow>
   string + (response \<times> database)" where
  "register_rows lib now data db name mail password =
     (case str_strip (data_get data ''first_name'' (JStr [])) of Inl err \<Rightarrow> Inl err | Inr fname \<Rightarrow>
      case str_strip (data_get data ''last_name'' (JStr [])) of Inl err \<Rightarrow> Inl err | Inr lname \<Rightarrow>
      case str_strip (data_get data ''phone'' (JStr [])) of Inl err \<Rightarrow> Inl err | Inr ph \<Rightarrow>
      case generate_password_hash lib password of Inl err \<Rightarrow> Inl err | Inr hash \<Rightarrow>
      case str_strip (data_get data ''organization_name'' (JStr [])) of
        Inl err \<Rightarrow> Inl err
      | Inr organization_name \<Rightarrow>
          (let new_user =
                 \<lparr>user_id = next_user_id db, username = name, email = mail,
                  password_hash = hash, first_name = fname, last_name = lname, phone = ph,
                  role = CLIENT_USER, organization_id = None,
                  is_active = True, is_verified = False, created_at = now,
                  last_login = None, last_activity = None\<rparr>
           in if organization_name \<noteq> [] then
                (let org = \<lparr>org_id = next_org_id db, org_name = organization_name,
                            contact_email = mail, org_is_active = True\<rparr>;
                     u = new_user\<lparr>organization_id := Some (org_id org), role := CLIENT_ADMIN\<rparr>
                 in Inr (\<lparr>status = 201, message = ''User registered successfully'',
                          response_user = Some u, token = Some (generate_token lib now u)\<rparr>,
                         db\<lparr>users := users db @ [u],
                            organizations := organizations db @ [org]\<rparr>))
              else
                Inr (\<lparr>status = 201, message = ''User registered successfully'',
                      response_user = Some new_user,
                      token = Some (generate_token lib now new_user)\<rparr>,
                     db\<lparr>users := users db @ [new_user]\<rparr>)))"

text \<open>\<open>register\<close>.  A body that is no dict raises at the first \<open>data.get\<close>.  Every
  exception ends in the handler of line 147, which rolls back and answers 500; no
  statement that can raise comes after a write.\<close>

definition register ::
  "library \<Rightarrow> nat \<Rightarrow> json \<Rightarrow> database \<Rightarrow> response \<times> database" where
  "register lib now data db =
     (case data of
        JObject items \<Rightarrow>
          (case register_validate lib (map_of items) of
             Raises err \<Rightarrow> (message_response 500 (''Registration failed: '' @ err), db)
           | Returns resp \<Rightarrow> (resp, db)
           | Value (name, mail, password) \<Rightarrow>
               if find_by_username db name \<noteq> None
                 then (message_response 409 ''Username already exists'', db)
               else if find_by_email db mail \<noteq> None
                 then (message_response 409 ''Email already registered'', db)
               else case register_rows lib now (map_of items) db name mail password of
                      Inl err \<Rightarrow> (message_response 500 (''Registration failed: '' @ err), db)
                    | Inr result \<Rightarrow> result)
      | _ \<Rightarrow> (message_response 500 (''Registration failed: '' @ no_attribute data ''get''), db))"

text \<open>Lines 161 to 185 of \<open>login\<close>, for a body that is a dict with a true email and a
  true password.\<close>

definition login_checked ::
  "library \<Rightarrow> nat \<Rightarrow> (string \<rightharpoonup> json) \<Rightarrow> database \<Rightarrow> string + (response \<times> database)" where
  "login_checked lib now data db =
     (case subscript data ''email'' of Inl err \<Rightarrow> Inl err | Inr e \<Rightarrow>
      case str_strip e of Inl err \<Rightarrow> Inl err | Inr stripped \<Rightarrow>
      case subscript data ''password'' of Inl err \<Rightarrow> Inl err | Inr password \<Rightarrow>
      case find_by_email db (py_lower stripped) of
        None \<Rightarrow> Inr (message_response 401 ''Invalid email or password'', db)
      | Some u \<Rightarrow>
          (case check_password_hash lib (password_hash u) password of
             Inl err \<Rightarrow> Inl err
           | Inr matches \<Rightarrow>
               if \<not> matches
                 then Inr (message_response 401 ''Invalid email or password'', db)
               else if \<not> is_active u
                 then Inr (message_response 401 ''Account is deactivated'', db)
               else
                 (let u' = u\<lparr>last_login := Some now, last_activity := Some now\<rparr>
                  in Inr (\<lparr>status = 200, message = ''Login successful'',
                           response_user = Some u',
                           token = Some (generate_token lib now u')\<rparr>,
                          db\<lparr>users := map (\<lambda>x. if user_id x = user_id u then u' else x)
                                          (users db)\<rparr>))))"

text \<open>\<open>login\<close>.  Every exception ends in the handler of line 187, which answers 500.\<close>

definition login ::
  "library \<Rightarrow> nat \<Rightarrow> json \<Rightarrow> database \<Rightarrow> response \<times> database" where
  "login lib now data db =
     (case data of
        JObject items \<Rightarrow>
          if falsy (map_of items ''email'') \<or> falsy (map_of items ''password'')
            then (message_response 400 ''Email and password are required'', db)
          else (case login_checked lib now (map_of items) db of
                  Inl err \<Rightarrow> (message_response 500 (''Login failed: '' @ err), db)
                | Inr result \<Rightarrow> result)
      | _ \<Rightarrow> (message_response 500 (''Login failed: '' @ no_attribute data ''get''), db))"


section \<open>File upload: \<open>models/dataset.py\<close> and \<open>upload_files\<close> of \<open>routes/files.py\<close>\<close>

definition ALLOWED_EXTENSIONS :: "(string \<times> string list) list" where
  "ALLOWED_EXTENSIONS =
     [(''images'', [''png'', ''jpg'', ''jpeg'', ''gif'', ''bmp'', ''tiff'', ''webp'']),
      (''documents'', [''pdf'', ''doc'', ''docx'', ''txt'', ''rtf'']),
      (''audio'', [''mp3'', ''wav'', ''flac'', ''aac'', ''m4a'', ''ogg'']),
      (''video'', [''mp4'', ''avi'', ''mov'', ''wmv'', ''flv'', ''webm'', ''mkv'']),
      (''data'', [''csv'', ''json'', ''xml'', ''xlsx'', ''xls'']),
      (''archives'', [''zip'', ''rar'', ''7z'', ''tar'', ''gz''])]"

definition ALL_ALLOWED_EXTENSIONS :: "string list" where
  "ALL_ALLOWED_EXTENSIONS = concat (map snd ALLOWED_EXTENSIONS)"

text \<open>\<open>filename.rsplit('.', 1)[1]\<close> for a file name that contains a dot.\<close>

definition extension :: "string \<Rightarrow> string" where
  "extension name = rev (takeWhile (\<lambda>c. c \<noteq> CHR ''.'') (rev name))"

definition allowed_file :: "string \<Rightarrow> bool" where
  "allowed_file name =
     (CHR ''.'' \<in> set name \<and> py_lower (extension name) \<in> set ALL_ALLOWED_EXTENSIONS)"

definition get_file_category :: "string \<Rightarrow> string" where
  "get_file_category name =
     (if CHR ''.'' \<notin> set name then ''other''
      else case find (\<lambda>(category, extensions). py_lower (extension name) \<in> set extensions)
                  ALLOWED_EXTENSIONS of
             Some (category, extensions) \<Rightarrow> category
           | None \<Rightarrow> ''other'')"

text \<open>
  The rows of \<open>models/dataset.py\<close>, with the columns that the upload reads or writes, and
  the names each class has as attributes: its columns, its relationships, the
  relationship the other side declares as \<open>backref\<close>, its method \<open>to_dict\<close>, and \<open>query\<close>
  and \<open>metadata\<close> of the base class.
\<close>

record dataset =
  dataset_id :: int
  dataset_name :: string
  dataset_project_id :: int
  dataset_description :: string
  file_count :: int
  total_size_bytes :: int

record data_item =
  item_dataset_id :: int
  item_filename :: string
  item_file_path :: string
  file_size_bytes :: "int option"
  item_file_hash :: string
  item_content_type :: string

definition Dataset_attributes :: "string list" where
  "Dataset_attributes =
     [''id'', ''name'', ''description'', ''project_id'', ''file_type'', ''file_count'',
      ''total_size_bytes'', ''storage_path'', ''original_filename'', ''status'',
      ''processing_log'', ''error_message'', ''file_metadata'', ''created_at'', ''updated_at'',
      ''processed_at'', ''data_items'', ''project'', ''to_dict'', ''query'', ''metadata'']"

definition DataItem_attributes :: "string list" where
  "DataItem_attributes =
     [''id'', ''dataset_id'', ''filename'', ''file_path'', ''file_size_bytes'', ''file_hash'',
      ''content_type'', ''dimensions'', ''duration'', ''is_processed'', ''processing_error'',
      ''item_metadata'', ''created_at'', ''updated_at'', ''annotations'', ''dataset'',
      ''to_dict'', ''query'', ''metadata'']"

record file_tables =
  projects :: "project list"
  datasets :: "dataset list"
  data_items :: "data_item list"

text \<open>
  An exception is kept as the text \<open>str(e)\<close> that the handlers put into the response.
  The constructor of a model class takes keyword arguments and raises \<open>TypeError\<close> at the
  first one that is not an attribute of the class; reading an attribute the class does
  not have raises \<open>AttributeError\<close>.
\<close>

definition model_constructor :: "string \<Rightarrow> string list \<Rightarrow> string list \<Rightarrow> 'a \<Rightarrow> string + 'a" where
  "model_constructor cls attributes kwargs row =
     (case find (\<lambda>k. k \<notin> set attributes) kwargs of
        Some k \<Rightarrow> Inl (quoted k @ '' is an invalid keyword argument for '' @ cls)
      | None \<Rightarrow> Inr row)"

definition class_attribute :: "string \<Rightarrow> string list \<Rightarrow> string \<Rightarrow> string + unit" where
  "class_attribute cls attributes name =
     (if name \<in> set attributes then Inr ()
      else Inl (''type object '' @ quoted cls @ '' has no attribute '' @ quoted name))"

text \<open>The request: the parts named \<open>files\<close> (none when the key is absent), and the form.\<close>

record upload_file =
  upload_filename :: string
  upload_content :: string

record upload_request =
  request_files :: "upload_file list"
  request_form :: "string \<rightharpoonup> string"

text \<open>What \<open>S3Service.upload_file\<close> returns; the service is a parameter of the model, and
  a failure of the service is the text of its exception.\<close>

record s3_metadata =
  file_key :: string
  file_size :: int
  file_hash :: string
  content_type :: string
  bucket :: string
  region :: string

record uploaded_entry =
  entry_filename :: string
  entry_file_size :: int
  entry_content_type :: string
  entry_file_key :: string

record upload_response =
  upload_status :: nat
  upload_message :: string
  response_dataset_id :: "int option"
  uploaded_files :: "uploaded_entry list"
  failed_files :: "(string \<times> string) list"

definition upload_error :: "nat \<Rightarrow> string \<Rightarrow> upload_response" where
  "upload_error code msg =
     \<lparr>upload_status = code, upload_message = msg, response_dataset_id = None,
      uploaded_files = [], failed_files = []\<rparr>"

text \<open>The state of the loop over the files: the two lists of the response, the rows added
  to the session, and the keys written to the bucket.\<close>

record upload_state =
  uploaded :: "uploaded_entry list"
  failed :: "(string \<times> string) list"
  added :: "data_item list"
  stored :: "string list"

text \<open>The database compares the integer column \<open>Project.id\<close> with the text of the form
  field.  A text of decimal digits matches the row with that number.  Every other text is
  taken to match no row; which of them a database converts to a number (SQLite does so
  for \<open>7.0\<close>) differs between databases and only decides between the answer 404 and the
  answers after it.\<close>

definition digit_value :: "char \<Rightarrow> int" where
  "digit_value c = (case map_of (zip ''0123456789'' [0, 1, 2, 3, 4, 5, 6, 7, 8, 9]) c of
                      Some d \<Rightarrow> d | None \<Rightarrow> 0)"

definition int_of_text :: "string \<Rightarrow> int option" where
  "int_of_text s =
     (if s \<noteq> [] \<and> list_all is_digit s
      then Some (foldl (\<lambda>a c. 10 * a + digit_value c) 0 s) else None)"

definition find_project :: "file_tables \<Rightarrow> string \<Rightarrow> int option \<Rightarrow> project option" where
  "find_project db pid org =
     (case (int_of_text pid, org) of
        (Some i, Some oid) \<Rightarrow>
          find (\<lambda>p. project_id p = i \<and> project_organization_id p = oid) (projects db)
      | _ \<Rightarrow> None)"

definition find_dataset :: "file_tables \<Rightarrow> string \<Rightarrow> string \<Rightarrow> dataset option" where
  "find_dataset db pid name =
     (case int_of_text pid of
        Some i \<Rightarrow> find (\<lambda>d. dataset_project_id d = i \<and> dataset_name d = name) (datasets db)
      | None \<Rightarrow> None)"

text \<open>Lines 89 to 140: one turn of the loop.\<close>

definition upload_one ::
  "(upload_file \<Rightarrow> string \<Rightarrow> int \<Rightarrow> string + s3_metadata) \<Rightarrow> string \<Rightarrow> int \<Rightarrow>
   upload_file \<Rightarrow> upload_state \<Rightarrow> upload_state" where
  "upload_one s3_upload pid ds f st =
     (if upload_filename f = [] then st
      else if \<not> allowed_file (upload_filename f)
        then st\<lparr>failed := failed st @ [(upload_filename f, ''File type not allowed'')]\<rparr>
      else case s3_upload f pid ds of
             Inl err \<Rightarrow> st\<lparr>failed := failed st @ [(upload_filename f, err)]\<rparr>
           | Inr meta \<Rightarrow>
               (case model_constructor ''DataItem'' DataItem_attributes
                       [''dataset_id'', ''filename'', ''file_path'', ''file_size'', ''file_hash'',
                        ''content_type'', ''file_metadata'', ''uploaded_by'']
                       \<lparr>item_dataset_id = ds, item_filename = upload_filename f,
                        item_file_path = file_key meta, file_size_bytes = None,
                        item_file_hash = file_hash meta,
                        item_content_type = content_type meta\<rparr> of
                  Inl err \<Rightarrow>
                    st\<lparr>failed := failed st @ [(upload_filename f, err)],
                       stored := stored st @ [file_key meta]\<rparr>
                | Inr item \<Rightarrow>
                    st\<lparr>uploaded := uploaded st @
                         [\<lparr>entry_filename = upload_filename f, entry_file_size = file_size meta,
                           entry_content_type = content_type meta,
                           entry_file_key = file_key meta\<rparr>],
                       added := added st @ [item],
                       stored := stored st @ [file_key meta]\<rparr>))"

text \<open>The decimal text of a number, for the message of the response.\<close>

fun str_of_nat :: "nat \<Rightarrow> string" where
  "str_of_nat n =
     (if n < 10 then [''0123456789'' ! n]
      else str_of_nat (n div 10) @ [''0123456789'' ! (n mod 10)])"

declare str_of_nat.simps [simp del]

text \<open>
  \<open>upload_files\<close>.  After the loop the route reads \<open>DataItem.file_size\<close> (line 144) and
  \<open>Dataset.total_items\<close> (line 147) to recompute the counters.  The result is the
  response, the tables after the request, and the keys written to the bucket.  An exception that reaches the outer handler rolls the session
  back, so the tables are the ones before the request; the bucket is not rolled back.
  \<open>stamp\<close> is the time text of the default dataset name.
\<close>

definition upload_files ::
  "(upload_file \<Rightarrow> string \<Rightarrow> int \<Rightarrow> string + s3_metadata) \<Rightarrow> string \<Rightarrow> user \<Rightarrow>
   upload_request \<Rightarrow> file_tables \<Rightarrow> upload_response \<times> file_tables \<times> string list" where
  "upload_files s3_upload stamp current_user req db =
     (if request_files req = [] then (upload_error 400 ''No files provided'', db, [])
      else if list_all (\<lambda>f. upload_filename f = []) (request_files req)
        then (upload_error 400 ''No files selected'', db, [])
      else case request_form req ''project_id'' of
        None \<Rightarrow> (upload_error 400 ''Project ID is required'', db, [])
      | Some pid \<Rightarrow>
          if pid = [] then (upload_error 400 ''Project ID is required'', db, [])
          else case find_project db pid (organization_id current_user) of
            None \<Rightarrow> (upload_error 404 ''Project not found or access denied'', db, [])
          | Some proj \<Rightarrow>
              (let name = data_get (request_form req) ''dataset_name'' (''Dataset_'' @ stamp);
                   ds = (case find_dataset db pid name of
                           Some d \<Rightarrow> Inr d
                         | None \<Rightarrow>
                             model_constructor ''Dataset'' Dataset_attributes
                               [''name'', ''project_id'', ''description'', ''data_type'',
                                ''created_by'']
                               \<lparr>dataset_id = fold max (map dataset_id (datasets db)) 0 + 1,
                                dataset_name = name, dataset_project_id = project_id proj,
                                dataset_description =
                                  data_get (request_form req) ''dataset_description'' '''',
                                file_count = 0, total_size_bytes = 0\<rparr>)
               in case ds of
                    Inl err \<Rightarrow> (upload_error 500 (''Upload failed: '' @ err), db, [])
                  | Inr d \<Rightarrow>
                      (let st = fold (upload_one s3_upload pid (dataset_id d)) (request_files req)
                                  \<lparr>uploaded = [], failed = [], added = [], stored = []\<rparr>
                       in case class_attribute ''DataItem'' DataItem_attributes ''file_size'' of
                            Inl err \<Rightarrow>
                              (upload_error 500 (''Upload failed: '' @ err), db, stored st)
                          | Inr _ \<Rightarrow>
                              (case class_attribute ''Dataset'' Dataset_attributes
                                      ''total_items'' of
                                 Inl err \<Rightarrow>
                                   (upload_error 500 (''Upload failed: '' @ err), db, stored st)
                               | Inr _ \<Rightarrow>
                                   (\<lparr>upload_status = 200,
                                     upload_message =
                                       ''Successfully uploaded '' @
                                       str_of_nat (length (uploaded st)) @ '' files'',
                                     response_dataset_id = Some (dataset_id d),
                                     uploaded_files = uploaded st, failed_files = failed st\<rparr>,
                                    db\<lparr>datasets :=
                                          (if d \<in> set (datasets db) then datasets db
                                           else datasets db @ [d]),
                                        data_items := data_items db @ added st\<rparr>,
                                    stored st)))))"

section \<open>Example data\<close>

text \<open>A library, requests and tables for the closed instances of the theorems below.  The
  example library raises for a password that is no string, as \<open>werkzeug\<close> does when it
  calls \<open>password.encode()\<close>.\<close>

definition example_library :: library where
  "example_library =
     \<lparr>generate_password_hash =
        (\<lambda>p. case p of JStr s \<Rightarrow> Inr (''pbkdf2$'' @ s) | _ \<Rightarrow> Inl (no_attribute p ''encode'')),
      check_password_hash =
        (\<lambda>h p. case p of JStr s \<Rightarrow> Inr (h = ''pbkdf2$'' @ s)
                        | _ \<Rightarrow> Inl (no_attribute p ''encode'')),
      jwt_encode = (\<lambda>uid r org expiry. ''token''),
      re_type_error =
        (\<lambda>v. ''expected string or bytes-like object, got '' @ quoted (type_name v))\<rparr>"

definition empty_database :: database where
  "empty_database = \<lparr>users = [], organizations = []\<rparr>"

definition ann_items :: "(string \<times> json) list" where
  "ann_items =
     [(''username'', JStr ''ann''), (''email'', JStr ''Ann@Example.com''),
      (''password'', JStr ''Secret123'')]"

definition ann_request :: json where
  "ann_request = JObject ann_items"

text \<open>The same email with a blank before it and a no-break space after it.\<close>

definition ann_again_items :: "(string \<times> json) list" where
  "ann_again_items =
     [(''username'', JStr ''ann2''), (''email'', JStr ('' ann@example.COM'' @ [CHR 0xA0])),
      (''password'', JStr ''Passw0rdX'')]"

definition ann_again_request :: json where
  "ann_again_request = JObject ann_again_items"

definition ann_weak_items :: "(string \<times> json) list" where
  "ann_weak_items =
     [(''username'', JStr ''ann2''), (''email'', JStr ''ann@example.com''),
      (''password'', JStr ''secret'')]"

definition ann_weak_request :: json where
  "ann_weak_request = JObject ann_weak_items"

definition acme_items :: "(string \<times> json) list" where
  "acme_items =
     [(''username'', JStr ''bob''), (''email'', JStr ''bob@acme.io''),
      (''password'', JStr ''Secret123''), (''organization_name'', JStr '' Acme '')]"

definition acme_request :: json where
  "acme_request = JObject acme_items"

definition blank_org_request :: json where
  "blank_org_request =
     JObject [(''username'', JStr ''bob''), (''email'', JStr ''bob@acme.io''),
              (''password'', JStr ''Secret123''), (''organization_name'', JStr ''   '')]"

definition ann_user :: user where
  "ann_user =
     \<lparr>user_id = 1, username = ''ann'', email = ''ann@example.com'',
      password_hash = ''pbkdf2$Secret123'', first_name = [], last_name = [], phone = [],
      role = CLIENT_USER, organization_id = None, is_active = True, is_verified = False,
      created_at = 10, last_login = None, last_activity = None\<rparr>"

definition bob_user :: user where
  "bob_user =
     \<lparr>user_id = 2, username = ''bob'', email = ''bob@acme.io'',
      password_hash = ''pbkdf2$Secret123'', first_name = [], last_name = [], phone = [],
      role = CLIENT_USER, organization_id = None, is_active = True, is_verified = False,
      created_at = 50, last_login = None, last_activity = None\<rparr>"

definition ann_database :: database where
  "ann_database = \<lparr>users = [ann_user], organizations = []\<rparr>"

definition deactivated_database :: database where
  "deactivated_database = \<lparr>users = [ann_user\<lparr>is_active := False\<rparr>], organizations = []\<rparr>"

text \<open>The email of \<open>ann_user\<close> with a no-break space after it.\<close>

definition deactivated_email :: string where
  "deactivated_email = ''ann@example.com'' @ [CHR 0xA0]"

definition login_items :: "string \<Rightarrow> json \<Rightarrow> (string \<times> json) list" where
  "login_items mail password = [(''email'', JStr mail), (''password'', password)]"

definition login_request :: "string \<Rightarrow> json \<Rightarrow> json" where
  "login_request mail password = JObject (login_items mail password)"

definition example_s3 :: "upload_file \<Rightarrow> string \<Rightarrow> int \<Rightarrow> string + s3_metadata" where
  "example_s3 f pid ds =
     Inr \<lparr>file_key = ''projects/'' @ pid @ ''/'' @ upload_filename f,
          file_size = int (length (upload_content f)),
          file_hash = ''e3b0c442'', content_type = ''application/octet-stream'',
          bucket = ''signaldrop-file-storage'', region = ''us-east-2''\<rparr>"

definition mixed_request :: upload_request where
  "mixed_request =
     \<lparr>request_files =
        [\<lparr>upload_filename = ''photo.png'', upload_content = ''abc''\<rparr>,
         \<lparr>upload_filename = ''tool.exe'', upload_content = ''xyz''\<rparr>],
      request_form = [''project_id'' \<mapsto> ''7'', ''dataset_name'' \<mapsto> ''batch'']\<rparr>"

definition example_tables :: file_tables where
  "example_tables =
     \<lparr>projects = [\<lparr>project_id = 7, project_organization_id = 1, total_items = Some 0,
                    completed_items = Some 0, approved_items = Some 0\<rparr>],
      datasets = [\<lparr>dataset_id = 3, dataset_name = ''batch'', dataset_project_id = 7,
                    dataset_description = [], file_count = 0, total_size_bytes = 0\<rparr>],
      data_items = []\<rparr>"

definition member_user :: user where
  "member_user = ann_user\<lparr>organization_id := Some 1\<rparr>"

section \<open>Evaluating the number model\<close>

lemma bit_length_0: "bit_length 0 = 0"
  by (simp add: bit_length.simps)

lemma bit_length_1: "bit_length 1 = 1"
  by (simp add: bit_length.simps)

lemma bit_length_One: "bit_length (numeral Num.One) = 1"
  by (simp add: bit_length.simps)

lemma bit_length_Bit0: "bit_length (numeral (Num.Bit0 k)) = 1 + bit_length (numeral k)"
  by (subst bit_length.simps) simp

lemma bit_length_Bit1: "bit_length (numeral (Num.Bit1 k)) = 1 + bit_length (numeral k)"
  by (subst bit_length.simps) simp

lemmas bit_length_numeral =
  bit_length_0 bit_length_1 bit_length_One bit_length_Bit0 bit_length_Bit1

lemmas binary64_eval =
  round_to_binary64_def binary64_exponent_def binary64_mantissa_def binary64_pack_def
  ilog2_ratio_def div_half_even_def round_scaled_def float_literal_def
  long_as_double_def Let_def bit_length_numeral

lemmas project_cost_eval =
  calculate_project_cost_def project_cost_body_def base_cost_def volume_discount_def
  discounted_def
  custom_rate_given_def select_tier_def pricing_tiers_def

lemma rate_starter: "float_literal 15 100 = Finite 5404319552844595 (- 55)"
  by (simp add: binary64_eval)

lemma rate_professional: "float_literal 12 100 = Finite 8646911284551352 (- 56)"
  by (simp add: binary64_eval)

lemma rate_enterprise: "float_literal 10 100 = Finite 7205759403792794 (- 56)"
  by (simp add: binary64_eval)

section \<open>Which integers convert to a float\<close>

lemma bit_length_le: "n < 2 ^ k \<Longrightarrow> bit_length n \<le> k"
proof (induction n arbitrary: k rule: bit_length.induct)
  case (1 n)
  show ?case
  proof (cases "n = 0")
    case True
    then show ?thesis by (simp add: bit_length.simps)
  next
    case False
    with "1.prems" obtain j where k: "k = Suc j"
      by (cases k) auto
    from "1.prems" k have "n div 2 < 2 ^ j" by auto
    with "1.IH" [OF False] have "bit_length (n div 2) \<le> j" by blast
    with False k show ?thesis by (subst bit_length.simps) simp
  qed
qed

lemma div_half_even_below:
  assumes "0 < h" and "0 \<le> a" and "a < (2 ^ 54 - 1) * h"
  shows "div_half_even a (2 * h) < 2 ^ 53"
proof -
  define q where "q = a div (2 * h)"
  define r where "r = a mod (2 * h)"
  define p where "p = h * q"
  have "a = 2 * h * q + r" by (simp add: q_def r_def)
  then have a: "a = 2 * p + r" by (simp add: p_def)
  have r: "0 \<le> r" "r < 2 * h" using assms(1) by (simp_all add: r_def)
  have m: "div_half_even a (2 * h) = q \<or> (div_half_even a (2 * h) = q + 1 \<and> h \<le> r)"
    by (auto simp: div_half_even_def Let_def q_def r_def)
  show ?thesis
  proof (rule ccontr)
    assume "\<not> div_half_even a (2 * h) < 2 ^ 53"
    with m consider "2 ^ 53 \<le> q" | "2 ^ 53 - 1 \<le> q" "h \<le> r" by auto
    then show False
    proof cases
      case 1
      then have "h * 2 ^ 53 \<le> p" unfolding p_def using assms(1) by (intro mult_left_mono) auto
      with a r assms show False by simp
    next
      case 2
      then have "h * (2 ^ 53 - 1) \<le> p" unfolding p_def using assms(1) by (intro mult_left_mono) auto
      with a r 2 assms show False by simp
    qed
  qed
qed

lemma bit_length_Suc_0: "bit_length (Suc 0) = 1"
  by (simp add: bit_length.simps)

lemma ilog2_ratio_int_le: "ilog2_ratio a 1 \<le> int (bit_length (nat a)) - 1"
  by (simp add: ilog2_ratio_def Let_def bit_length_Suc_0)

lemma round_int_finite:
  assumes "\<bar>n\<bar> < 2 ^ 1024 - 2 ^ 970"
  shows "\<exists>m e. round_to_binary64 n 1 = Finite m e"
proof (cases "n = 0")
  case True
  then show ?thesis by (simp add: round_to_binary64_def)
next
  case False
  define t where "t = binary64_exponent n 1"
  have "nat \<bar>n\<bar> < 2 ^ 1024" using assms by (simp add: nat_less_iff)
  then have "bit_length (nat \<bar>n\<bar>) \<le> 1024" by (rule bit_length_le)
  with ilog2_ratio_int_le [of "\<bar>n\<bar>"] have t: "t \<le> 971"
    by (simp add: t_def binary64_exponent_def)
  have m: "binary64_mantissa n 1 t \<noteq> 2 ^ 53" if "t = 971"
  proof -
    have "div_half_even \<bar>n\<bar> (2 * 2 ^ 970) < 2 ^ 53"
      using assms by (intro div_half_even_below) simp_all
    then show ?thesis using that by (simp add: binary64_mantissa_def)
  qed
  show ?thesis
  proof (cases "t = 971")
    case True
    with m False show ?thesis
      by (simp add: round_to_binary64_def Let_def binary64_pack_def t_def [symmetric])
  next
    case False
    with t have "t + 1 \<le> 971" by simp
    with \<open>n \<noteq> 0\<close> show ?thesis
      by (simp add: round_to_binary64_def Let_def binary64_pack_def t_def [symmetric])
  qed
qed

lemma bit_length_upper: "n < 2 ^ bit_length n"
proof (induction n rule: bit_length.induct)
  case (1 n)
  show ?case
  proof (cases "n = 0")
    case True
    then show ?thesis by simp
  next
    case False
    with "1.IH" have "n div 2 < 2 ^ bit_length (n div 2)" by blast
    then have "n < 2 * 2 ^ bit_length (n div 2)" by linarith
    with False show ?thesis by (subst bit_length.simps) simp
  qed
qed

lemma bit_length_lower: "0 < n \<Longrightarrow> 2 ^ (bit_length n - 1) \<le> n"
proof (induction n rule: bit_length.induct)
  case (1 n)
  show ?case
  proof (cases "n div 2 = 0")
    case True
    with "1.prems" have "n = 1" by linarith
    then show ?thesis by (simp add: bit_length_Suc_0)
  next
    case False
    with "1.IH" "1.prems" have ih: "2 ^ (bit_length (n div 2) - 1) \<le> n div 2" by simp
    from False have pos: "0 < bit_length (n div 2)" by (subst bit_length.simps) simp
    have "bit_length n = Suc (bit_length (n div 2))"
      using "1.prems" by (subst bit_length.simps) simp
    then have "(2::nat) ^ (bit_length n - 1) = 2 * 2 ^ (bit_length (n div 2) - 1)"
      using pos by (cases "bit_length (n div 2)") simp_all
    with ih show ?thesis by linarith
  qed
qed

lemma div_half_even_carry:
  assumes "0 < h" and "(2 ^ 54 - 1) * h \<le> a" and "a < 2 ^ 54 * h"
  shows "div_half_even a (2 * h) = 2 ^ 53"
proof -
  define r where "r = a - (2 * h) * (2 ^ 53 - 1)"
  have r: "h \<le> r" "r < 2 * h" using assms by (simp_all add: r_def algebra_simps)
  have a: "a = (2 * h) * (2 ^ 53 - 1) + r" by (simp add: r_def)
  from r assms(1) have r0: "0 \<le> r" by linarith
  have q: "a div (2 * h) = 2 ^ 53 - 1"
    using a r0 r(2) by (rule int_div_pos_eq)
  have m: "a mod (2 * h) = r"
    using a r0 r(2) by (rule int_mod_pos_eq)
  show ?thesis
    using r by (simp add: div_half_even_def Let_def q m)
qed

lemma round_int_overflow:
  assumes "2 ^ 1024 - 2 ^ 970 \<le> \<bar>n\<bar>"
  shows "round_to_binary64 n 1 = (if 0 < n then PosInf else NegInf)"
proof -
  define k where "k = bit_length (nat \<bar>n\<bar>)"
  from assms have n0: "n \<noteq> 0" by auto
  from assms have "(2::nat) ^ 1023 \<le> nat \<bar>n\<bar>" by (simp add: le_nat_iff)
  also have up: "nat \<bar>n\<bar> < 2 ^ k" unfolding k_def by (rule bit_length_upper)
  finally have k: "1023 < k" by (simp only: power_strict_increasing_iff rel_simps)
  from n0 have "0 < nat \<bar>n\<bar>" by simp
  then have "2 ^ (k - 1) \<le> nat \<bar>n\<bar>" unfolding k_def by (rule bit_length_lower)
  then have "(2::int) ^ (k - 1) \<le> \<bar>n\<bar>" by (simp add: le_nat_iff)
  with k have "ilog2_ratio \<bar>n\<bar> 1 = int k - 1"
    by (simp add: ilog2_ratio_def Let_def bit_length_Suc_0 k_def [symmetric] nat_diff_distrib')
  with k have t: "binary64_exponent n 1 = int k - 53" by (simp add: binary64_exponent_def)
  show ?thesis
  proof (cases "k = 1024")
    case True
    with up have "\<bar>n\<bar> < 2 ^ 1024" by (simp add: nat_less_iff)
    with assms have "div_half_even \<bar>n\<bar> (2 * 2 ^ 970) = 2 ^ 53"
      by (intro div_half_even_carry) simp_all
    then have "binary64_mantissa n 1 971 = 2 ^ 53" by (simp add: binary64_mantissa_def)
    with n0 t True show ?thesis
      by (simp add: round_to_binary64_def Let_def binary64_pack_def sgn_if)
  next
    case False
    with k have "971 < int k - 53" by simp
    with n0 t show ?thesis
      by (simp add: round_to_binary64_def Let_def binary64_pack_def sgn_if)
  qed
qed

lemma long_as_double_overflow:
  "2 ^ 1024 - 2 ^ 970 \<le> \<bar>n\<bar> \<Longrightarrow> long_as_double n = Inl OverflowError"
  by (simp add: long_as_double_def round_int_overflow)

lemma long_as_double_finite:
  assumes "\<bar>n\<bar> < 2 ^ 1024 - 2 ^ 970"
  obtains f where "long_as_double n = Inr f"
proof -
  from round_int_finite [OF assms] obtain m e where "round_to_binary64 n 1 = Finite m e" by blast
  then have "long_as_double n = Inr (Finite m e)" by (simp add: long_as_double_def)
  then show ?thesis by (rule that)
qed

section \<open>When the cost calculation returns\<close>

lemma discounted_float:
  "discounted (PyFloat s) p =
     Inr (PyFloat p, PyFloat (float_mul s p), PyFloat (float_sub s (float_mul s p)))"
  by (simp add: discounted_def)

lemma discounted_int:
  "long_as_double k = Inr f \<Longrightarrow>
   discounted (PyInt k) p =
     Inr (PyFloat p, PyFloat (float_mul f p), PyFloat (float_sub f (float_mul f p)))"
  by (simp add: discounted_def)

lemma discounted_int_overflow:
  "long_as_double k = Inl err \<Longrightarrow> discounted (PyInt k) p = Inl err"
  by (simp add: discounted_def)

lemma volume_discount_returns:
  assumes "case cost of
             PyInt k \<Rightarrow> n \<le> 10000 \<or> \<bar>k\<bar> < 2 ^ 1024 - 2 ^ 970
           | PyFloat s \<Rightarrow> True"
  obtains p a t where "volume_discount n cost = Inr (p, a, t)"
proof -
  have "\<exists>p a t. volume_discount n cost = Inr (p, a, t)"
  proof (cases cost)
    case (PyFloat s)
    then show ?thesis by (simp add: volume_discount_def discounted_float)
  next
    case (PyInt k)
    show ?thesis
    proof (cases "n \<le> 10000")
      case True
      then show ?thesis by (simp add: volume_discount_def)
    next
      case False
      with assms PyInt have "\<bar>k\<bar> < 2 ^ 1024 - 2 ^ 970" by simp
      then obtain f where "long_as_double k = Inr f" by (rule long_as_double_finite)
      then show ?thesis using PyInt by (simp add: volume_discount_def discounted_int)
    qed
  qed
  then show ?thesis using that by blast
qed

lemma volume_discount_overflow:
  assumes "10000 < n" and "2 ^ 1024 - 2 ^ 970 \<le> \<bar>k\<bar>"
  shows "volume_discount n (PyInt k) = Inl OverflowError"
  using assms(1) long_as_double_overflow [OF assms(2)]
  by (simp add: volume_discount_def discounted_int_overflow)

lemma project_cost_result:
  assumes "base_cost n custom_rate = Inr (cost, name, rate)"
    and "volume_discount n cost = Inr (p, a, t)"
    and "py_mul (PyInt n) rate = Inr sub"
  shows "calculate_project_cost n custom_rate =
           Some \<lparr>annotation_count = n, tier = name, rate_per_annotation = rate,
                 subtotal = sub, discount_percentage = p, discount_amount = py_round2 a,
                 total_cost = py_round2 t, currency = ''usd''\<rparr>"
  using assms by (simp add: calculate_project_cost_def project_cost_body_def)

lemma tier_price_ex:
  "\<exists>entry. map_of pricing_tiers (select_tier n) = Some entry \<and>
     price_per_annotation entry =
       (if n \<le> 1000 then float_literal 15 100
        else if n \<le> 10000 then float_literal 12 100 else float_literal 10 100)"
  by (simp add: pricing_tiers_def select_tier_def)

lemma tier_price:
  obtains entry where "map_of pricing_tiers (select_tier n) = Some entry"
    and "price_per_annotation entry =
           (if n \<le> 1000 then float_literal 15 100
            else if n \<le> 10000 then float_literal 12 100 else float_literal 10 100)"
  using tier_price_ex [of n] by blast

text \<open>The calls that return a breakdown, and what it holds.\<close>

lemma project_cost_fields:
  assumes "case custom_rate_given custom_rate of
             Some (PyInt c) \<Rightarrow> n \<le> 10000 \<or> \<bar>n * c\<bar> < 2 ^ 1024 - 2 ^ 970
           | _ \<Rightarrow> \<bar>n\<bar> < 2 ^ 1024 - 2 ^ 970"
  shows "\<exists>r a t. calculate_project_cost n custom_rate = Some r
           \<and> tier r = (case custom_rate_given custom_rate of
                         Some c \<Rightarrow> ''custom'' | None \<Rightarrow> select_tier n)
           \<and> rate_per_annotation r =
               (case custom_rate_given custom_rate of
                  Some c \<Rightarrow> c
                | None \<Rightarrow>
                    PyFloat (if n \<le> 1000 then float_literal 15 100
                             else if n \<le> 10000 then float_literal 12 100
                             else float_literal 10 100))
           \<and> py_mul (PyInt n) (rate_per_annotation r) = Inr (subtotal r)
           \<and> volume_discount n (subtotal r) = Inr (discount_percentage r, a, t)
           \<and> discount_amount r = py_round2 a \<and> total_cost r = py_round2 t"
proof -
  define rate where "rate =
    (case custom_rate_given custom_rate of
       Some c \<Rightarrow> c
     | None \<Rightarrow> PyFloat (if n \<le> 1000 then float_literal 15 100
                       else if n \<le> 10000 then float_literal 12 100
                       else float_literal 10 100))"
  define name where "name =
    (case custom_rate_given custom_rate of Some c \<Rightarrow> ''custom'' | None \<Rightarrow> select_tier n)"
  have "\<exists>cost. py_mul (PyInt n) rate = Inr cost \<and>
          (case cost of PyInt k \<Rightarrow> n \<le> 10000 \<or> \<bar>k\<bar> < 2 ^ 1024 - 2 ^ 970
                      | PyFloat s \<Rightarrow> True)"
  proof (cases rate)
    case (PyInt c)
    then have "custom_rate_given custom_rate = Some (PyInt c)"
      by (simp add: rate_def split: option.splits)
    with assms PyInt show ?thesis by simp
  next
    case (PyFloat x)
    then have "\<bar>n\<bar> < 2 ^ 1024 - 2 ^ 970"
      using assms by (auto simp: rate_def split: option.splits pynum.splits)
    then obtain f where "long_as_double n = Inr f" by (rule long_as_double_finite)
    with PyFloat show ?thesis by simp
  qed
  then obtain cost where cost: "py_mul (PyInt n) rate = Inr cost"
    and "case cost of PyInt k \<Rightarrow> n \<le> 10000 \<or> \<bar>k\<bar> < 2 ^ 1024 - 2 ^ 970
                    | PyFloat s \<Rightarrow> True"
    by blast
  from this(2) obtain p a t where vd: "volume_discount n cost = Inr (p, a, t)"
    by (rule volume_discount_returns)
  obtain entry where entry: "map_of pricing_tiers (select_tier n) = Some entry"
    "price_per_annotation entry =
       (if n \<le> 1000 then float_literal 15 100
        else if n \<le> 10000 then float_literal 12 100 else float_literal 10 100)"
    by (rule tier_price)
  have base: "base_cost n custom_rate = Inr (cost, name, rate)"
  proof (cases "custom_rate_given custom_rate")
    case None
    then have "rate = PyFloat (price_per_annotation entry)"
      by (simp add: rate_def entry(2))
    with cost None entry(1) show ?thesis
      by (simp add: base_cost_def name_def del: py_mul.simps)
  next
    case (Some c)
    then have "rate = c" by (simp add: rate_def)
    with cost Some show ?thesis
      by (simp add: base_cost_def name_def del: py_mul.simps)
  qed
  from project_cost_result [OF base vd cost] show ?thesis
    using cost vd by (auto simp: rate_def name_def)
qed

text \<open>The calls that return \<open>None\<close>.\<close>

lemma project_cost_none:
  assumes "\<not> (case custom_rate_given custom_rate of
               Some (PyInt c) \<Rightarrow> n \<le> 10000 \<or> \<bar>n * c\<bar> < 2 ^ 1024 - 2 ^ 970
             | _ \<Rightarrow> \<bar>n\<bar> < 2 ^ 1024 - 2 ^ 970)"
  shows "calculate_project_cost n custom_rate = None"
proof (cases "custom_rate_given custom_rate")
  case None
  with assms have "2 ^ 1024 - 2 ^ 970 \<le> \<bar>n\<bar>" by simp
  moreover obtain entry where "map_of pricing_tiers (select_tier n) = Some entry"
    by (rule tier_price)
  ultimately show ?thesis
    using long_as_double_overflow [of n] None
    by (simp add: calculate_project_cost_def project_cost_body_def base_cost_def)
next
  case (Some c)
  show ?thesis
  proof (cases c)
    case (PyFloat x)
    with assms Some have "2 ^ 1024 - 2 ^ 970 \<le> \<bar>n\<bar>" by simp
    from long_as_double_overflow [OF this] Some PyFloat show ?thesis
      by (simp add: calculate_project_cost_def project_cost_body_def base_cost_def)
  next
    case (PyInt i)
    with assms Some have "10000 < n" and "2 ^ 1024 - 2 ^ 970 \<le> \<bar>n * i\<bar>" by simp_all
    from volume_discount_overflow [OF this] Some PyInt show ?thesis
      by (simp add: calculate_project_cost_def project_cost_body_def base_cost_def)
  qed
qed

lemma custom_rate_zero:
  "\<not> py_bool c \<Longrightarrow> calculate_project_cost n (Some c) = calculate_project_cost n None"
  by (simp add: calculate_project_cost_def project_cost_body_def base_cost_def
        custom_rate_given_def)

lemma cost_10000:
  "calculate_project_cost 10000 None =
     Some \<lparr>annotation_count = 10000, tier = ''professional'',
           rate_per_annotation = PyFloat (float_literal 12 100),
           subtotal = PyFloat (float_literal 120000 100),
           discount_percentage = PyInt 0, discount_amount = PyInt 0,
           total_cost = PyFloat (float_literal 120000 100), currency = ''usd''\<rparr>"
  by (simp add: project_cost_eval binary64_eval)

lemma cost_10001:
  "calculate_project_cost 10001 None =
     Some \<lparr>annotation_count = 10001, tier = ''enterprise'',
           rate_per_annotation = PyFloat (float_literal 10 100),
           subtotal = PyFloat (float_literal 100010 100),
           discount_percentage = PyFloat (float_literal 5 100),
           discount_amount = PyFloat (float_literal 5001 100),
           total_cost = PyFloat (float_literal 95010 100), currency = ''usd''\<rparr>"
  by (simp add: project_cost_eval binary64_eval)

lemma cost_60000:
  "calculate_project_cost 60000 None =
     Some \<lparr>annotation_count = 60000, tier = ''enterprise'',
           rate_per_annotation = PyFloat (float_literal 10 100),
           subtotal = PyFloat (float_literal 600000 100),
           discount_percentage = PyFloat (float_literal 15 100),
           discount_amount = PyFloat (float_literal 90000 100),
           total_cost = PyFloat (float_literal 510000 100), currency = ''usd''\<rparr>"
  by (simp add: project_cost_eval binary64_eval)

lemma volume_discount_band:
  assumes "volume_discount n s = Inr (p, a, t)"
  shows "(50000 < n \<longrightarrow>
            p = PyFloat (float_literal 15 100) \<and>
            py_mul s (PyFloat (float_literal 15 100)) = Inr a \<and> py_sub s a = Inr t) \<and>
         (25000 < n \<and> n \<le> 50000 \<longrightarrow>
            p = PyFloat (float_literal 10 100) \<and>
            py_mul s (PyFloat (float_literal 10 100)) = Inr a \<and> py_sub s a = Inr t) \<and>
         (10000 < n \<and> n \<le> 25000 \<longrightarrow>
            p = PyFloat (float_literal 5 100) \<and>
            py_mul s (PyFloat (float_literal 5 100)) = Inr a \<and> py_sub s a = Inr t) \<and>
         (n \<le> 10000 \<longrightarrow> p = PyInt 0 \<and> a = PyInt 0 \<and> t = s)"
  using assms
  by (auto simp: volume_discount_def discounted_def simp del: py_mul.simps py_sub.simps
           split: if_splits sum.splits)

section \<open>Claims about the cost calculation\<close>

text \<open>
  C1.  \<open>calculate_project_cost(10001)\<close> with no custom rate returns tier "enterprise", rate
  0.10, subtotal 1000.10, discount percentage 0.05, and total cost 950.10 after rounding
  to two decimals.  Each number is the float that the decimal literal denotes; the rounded
  discount amount is 50.01.  The unrounded total is the float just above 950.095, so
  \<open>round\<close> goes up without a tie.
\<close>

theorem calculate_project_cost_10001:
  "calculate_project_cost 10001 None =
     Some \<lparr>annotation_count = 10001, tier = ''enterprise'',
           rate_per_annotation = PyFloat (float_literal 10 100),
           subtotal = PyFloat (float_literal 100010 100),
           discount_percentage = PyFloat (float_literal 5 100),
           discount_amount = PyFloat (float_literal 5001 100),
           total_cost = PyFloat (float_literal 95010 100),
           currency = ''usd''\<rparr>"
  by (simp add: project_cost_eval binary64_eval)

text \<open>
  C2 (as amended).  A call returns a breakdown unless a conversion of an \<open>int\<close> to a \<open>float\<close>
  overflows: with no custom rate, a zero rate or a \<open>float\<close> rate it returns when the
  annotation count is of magnitude below \<open>2 ^ 1024 - 2 ^ 970\<close>; with an \<open>int\<close> rate other
  than zero it returns when the count is at most 10000 or the product of count and rate
  is of magnitude below that bound.  Every breakdown returned has exactly one discount
  band, chosen by strict comparisons from the top: above 50000 the percentage is 0.15,
  above 25000 it is 0.10, above 10000 it is 0.05, and the discount amount and the total
  are \<open>subtotal * percentage\<close> and \<open>subtotal - amount\<close>, each rounded to two decimals;
  otherwise the percentage and the amount are 0 and the total is the rounded subtotal.
  Every other call returns \<open>None\<close>.  In particular 10000 gives tier "professional" with no
  discount, 10001 gives tier "enterprise" with 0.05, and 60000 gives tier "enterprise",
  0.15 and total cost 5100.00.
\<close>

theorem volume_discount_bands:
  "((case custom_rate_given custom_rate of
       Some (PyInt c) \<Rightarrow> n \<le> 10000 \<or> \<bar>n * c\<bar> < 2 ^ 1024 - 2 ^ 970
     | _ \<Rightarrow> \<bar>n\<bar> < 2 ^ 1024 - 2 ^ 970) \<longrightarrow>
    (\<exists>r a t. calculate_project_cost n custom_rate = Some r \<and>
       discount_amount r = py_round2 a \<and> total_cost r = py_round2 t \<and>
       (50000 < n \<longrightarrow>
          discount_percentage r = PyFloat (float_literal 15 100) \<and>
          py_mul (subtotal r) (PyFloat (float_literal 15 100)) = Inr a \<and>
          py_sub (subtotal r) a = Inr t) \<and>
       (25000 < n \<and> n \<le> 50000 \<longrightarrow>
          discount_percentage r = PyFloat (float_literal 10 100) \<and>
          py_mul (subtotal r) (PyFloat (float_literal 10 100)) = Inr a \<and>
          py_sub (subtotal r) a = Inr t) \<and>
       (10000 < n \<and> n \<le> 25000 \<longrightarrow>
          discount_percentage r = PyFloat (float_literal 5 100) \<and>
          py_mul (subtotal r) (PyFloat (float_literal 5 100)) = Inr a \<and>
          py_sub (subtotal r) a = Inr t) \<and>
       (n \<le> 10000 \<longrightarrow>
          discount_percentage r = PyInt 0 \<and> a = PyInt 0 \<and> t = subtotal r))) \<and>
   (\<not> (case custom_rate_given custom_rate of
          Some (PyInt c) \<Rightarrow> n \<le> 10000 \<or> \<bar>n * c\<bar> < 2 ^ 1024 - 2 ^ 970
        | _ \<Rightarrow> \<bar>n\<bar> < 2 ^ 1024 - 2 ^ 970) \<longrightarrow>
    calculate_project_cost n custom_rate = None) \<and>
   map_option tier (calculate_project_cost 10000 None) = Some ''professional'' \<and>
   map_option discount_percentage (calculate_project_cost 10000 None) = Some (PyInt 0) \<and>
   map_option tier (calculate_project_cost 10001 None) = Some ''enterprise'' \<and>
   map_option discount_percentage (calculate_project_cost 10001 None) =
     Some (PyFloat (float_literal 5 100)) \<and>
   map_option tier (calculate_project_cost 60000 None) = Some ''enterprise'' \<and>
   map_option discount_percentage (calculate_project_cost 60000 None) =
     Some (PyFloat (float_literal 15 100)) \<and>
   map_option total_cost (calculate_project_cost 60000 None) =
     Some (PyFloat (float_literal 510000 100))"
proof (intro conjI impI)
  assume "case custom_rate_given custom_rate of
       Some (PyInt c) \<Rightarrow> n \<le> 10000 \<or> \<bar>n * c\<bar> < 2 ^ 1024 - 2 ^ 970
     | _ \<Rightarrow> \<bar>n\<bar> < 2 ^ 1024 - 2 ^ 970"
  from project_cost_fields [OF this] obtain r a t where
    r: "calculate_project_cost n custom_rate = Some r"
       "discount_amount r = py_round2 a" "total_cost r = py_round2 t"
    and vd: "volume_discount n (subtotal r) = Inr (discount_percentage r, a, t)"
    by blast
  from volume_discount_band [OF vd] r
  show "\<exists>r a t. calculate_project_cost n custom_rate = Some r \<and>
       discount_amount r = py_round2 a \<and> total_cost r = py_round2 t \<and>
       (50000 < n \<longrightarrow>
          discount_percentage r = PyFloat (float_literal 15 100) \<and>
          py_mul (subtotal r) (PyFloat (float_literal 15 100)) = Inr a \<and>
          py_sub (subtotal r) a = Inr t) \<and>
       (25000 < n \<and> n \<le> 50000 \<longrightarrow>
          discount_percentage r = PyFloat (float_literal 10 100) \<and>
          py_mul (subtotal r) (PyFloat (float_literal 10 100)) = Inr a \<and>
          py_sub (subtotal r) a = Inr t) \<and>
       (10000 < n \<and> n \<le> 25000 \<longrightarrow>
          discount_percentage r = PyFloat (float_literal 5 100) \<and>
          py_mul (subtotal r) (PyFloat (float_literal 5 100)) = Inr a \<and>
          py_sub (subtotal r) a = Inr t) \<and>
       (n \<le> 10000 \<longrightarrow>
          discount_percentage r = PyInt 0 \<and> a = PyInt 0 \<and> t = subtotal r)"
    by (intro exI [of _ r] exI [of _ a] exI [of _ t]) blast
next
  assume "\<not> (case custom_rate_given custom_rate of
          Some (PyInt c) \<Rightarrow> n \<le> 10000 \<or> \<bar>n * c\<bar> < 2 ^ 1024 - 2 ^ 970
        | _ \<Rightarrow> \<bar>n\<bar> < 2 ^ 1024 - 2 ^ 970)"
  then show "calculate_project_cost n custom_rate = None"
    by (rule project_cost_none)
qed (simp_all add: cost_10000 cost_10001 cost_60000)

theorem volume_discount_bands_witness:
  "map_option discount_percentage (calculate_project_cost 30000 None) =
     Some (PyFloat (float_literal 10 100)) \<and>
   map_option discount_percentage (calculate_project_cost 30000 (Some (PyInt 2))) =
     Some (PyFloat (float_literal 10 100)) \<and>
   calculate_project_cost 60000 (Some (PyInt (10 ^ 400))) = None"
proof -
  have a: "map_option discount_percentage (calculate_project_cost 30000 None) =
     Some (PyFloat (float_literal 10 100))"
    using volume_discount_bands [where custom_rate = "None" and n = 30000]
    by (auto simp: custom_rate_given_def)
  have b: "map_option discount_percentage (calculate_project_cost 30000 (Some (PyInt 2))) =
     Some (PyFloat (float_literal 10 100))"
    using volume_discount_bands [where custom_rate = "Some (PyInt 2)" and n = 30000]
    by (auto simp: custom_rate_given_def)
  have c: "calculate_project_cost 60000 (Some (PyInt (10 ^ 400))) = None"
    using volume_discount_bands [where custom_rate = "Some (PyInt (10 ^ 400))" and n = 60000]
    by (simp add: custom_rate_given_def)
  from a b c show ?thesis by simp
qed

theorem volume_discount_bands_counterexample:
  "(50000 :: int) < 2 ^ 1024 \<and> calculate_project_cost (2 ^ 1024) None = None"
  by (simp add: project_cost_none custom_rate_given_def)

text \<open>
  C3 (as amended).  For every annotation count that Python can convert to a float (of
  magnitude below \<open>2 ^ 1024 - 2 ^ 970\<close>) and no custom rate, \<open>calculate_project_cost\<close>
  returns a breakdown whose tier is "starter" with rate 0.15 up to 1000, "professional" with
  rate 0.12 above 1000 and up to 10000, and "enterprise" with rate 0.10 above 10000; up to
  1000 the discount is 0.  Outside that range it returns \<open>None\<close>.
\<close>

theorem tier_selection:
  "(\<bar>n\<bar> < 2 ^ 1024 - 2 ^ 970 \<longrightarrow>
      (\<exists>r. calculate_project_cost n None = Some r \<and>
           (n \<le> 1000 \<longrightarrow>
              tier r = ''starter'' \<and>
              rate_per_annotation r = PyFloat (float_literal 15 100) \<and>
              discount_percentage r = PyInt 0) \<and>
           (1000 < n \<and> n \<le> 10000 \<longrightarrow>
              tier r = ''professional'' \<and>
              rate_per_annotation r = PyFloat (float_literal 12 100)) \<and>
           (10000 < n \<longrightarrow>
              tier r = ''enterprise'' \<and>
              rate_per_annotation r = PyFloat (float_literal 10 100)))) \<and>
   (2 ^ 1024 - 2 ^ 970 \<le> \<bar>n\<bar> \<longrightarrow> calculate_project_cost n None = None)"
proof (intro conjI impI)
  assume "\<bar>n\<bar> < 2 ^ 1024 - 2 ^ 970"
  then have "case custom_rate_given None of
       Some (PyInt c) \<Rightarrow> n \<le> 10000 \<or> \<bar>n * c\<bar> < 2 ^ 1024 - 2 ^ 970
     | _ \<Rightarrow> \<bar>n\<bar> < 2 ^ 1024 - 2 ^ 970"
    by (simp add: custom_rate_given_def)
  from project_cost_fields [OF this] obtain r a t where
    r: "calculate_project_cost n None = Some r"
       "tier r = select_tier n"
       "rate_per_annotation r =
          PyFloat (if n \<le> 1000 then float_literal 15 100
                   else if n \<le> 10000 then float_literal 12 100
                   else float_literal 10 100)"
    and vd: "volume_discount n (subtotal r) = Inr (discount_percentage r, a, t)"
    by (auto simp: custom_rate_given_def)
  from volume_discount_band [OF vd] have "n \<le> 1000 \<longrightarrow> discount_percentage r = PyInt 0"
    by simp
  with r show "\<exists>r. calculate_project_cost n None = Some r \<and>
           (n \<le> 1000 \<longrightarrow>
              tier r = ''starter'' \<and>
              rate_per_annotation r = PyFloat (float_literal 15 100) \<and>
              discount_percentage r = PyInt 0) \<and>
           (1000 < n \<and> n \<le> 10000 \<longrightarrow>
              tier r = ''professional'' \<and>
              rate_per_annotation r = PyFloat (float_literal 12 100)) \<and>
           (10000 < n \<longrightarrow>
              tier r = ''enterprise'' \<and>
              rate_per_annotation r = PyFloat (float_literal 10 100))"
    by (intro exI [of _ r]) (simp add: select_tier_def)
next
  assume "2 ^ 1024 - 2 ^ 970 \<le> \<bar>n\<bar>"
  then show "calculate_project_cost n None = None"
    by (intro project_cost_none) (simp add: custom_rate_given_def)
qed

theorem tier_selection_witness:
  "\<bar>500 :: int\<bar> < 2 ^ 1024 - 2 ^ 970 \<and>
   map_option tier (calculate_project_cost 500 None) = Some ''starter'' \<and>
   map_option rate_per_annotation (calculate_project_cost 500 None) =
     Some (PyFloat (float_literal 15 100)) \<and>
   map_option discount_percentage (calculate_project_cost 500 None) = Some (PyInt 0) \<and>
   calculate_project_cost (2 ^ 1024 - 2 ^ 970) None = None"
proof -
  have "map_option tier (calculate_project_cost 500 None) = Some ''starter'' \<and>
   map_option rate_per_annotation (calculate_project_cost 500 None) =
     Some (PyFloat (float_literal 15 100)) \<and>
   map_option discount_percentage (calculate_project_cost 500 None) = Some (PyInt 0)"
    using tier_selection [of 500] by auto
  moreover have "calculate_project_cost (2 ^ 1024 - 2 ^ 970) None = None"
    using tier_selection [of "2 ^ 1024 - 2 ^ 970"] by simp
  ultimately show ?thesis by simp
qed

theorem tier_selection_counterexample:
  "- (2 ^ 1024) \<le> (1000 :: int) \<and> calculate_project_cost (- (2 ^ 1024)) None = None"
  by (simp add: project_cost_none custom_rate_given_def)

text \<open>
  C4 (as amended).  For every call in which a custom rate other than zero is given, an
  \<open>int\<close> or a \<open>float\<close>, and no conversion to a float overflows (for a \<open>float\<close> rate the
  annotation count is of magnitude below \<open>2 ^ 1024 - 2 ^ 970\<close>; for an \<open>int\<close> rate the
  count is at most 10000 or count times rate is of magnitude below that bound),
  \<open>calculate_project_cost\<close> returns tier "custom", the custom rate as the rate per
  annotation, and the subtotal \<open>annotation_count * custom_rate\<close>.  Where a conversion
  overflows it returns \<open>None\<close>.  A custom rate of zero is false in \<open>if custom_rate:\<close> and
  gives what the call with no custom rate gives.
\<close>

theorem custom_rate_applied:
  "(py_bool c \<and>
    (case c of PyInt i \<Rightarrow> n \<le> 10000 \<or> \<bar>n * i\<bar> < 2 ^ 1024 - 2 ^ 970
             | PyFloat x \<Rightarrow> \<bar>n\<bar> < 2 ^ 1024 - 2 ^ 970) \<longrightarrow>
    (\<exists>r. calculate_project_cost n (Some c) = Some r \<and>
         tier r = ''custom'' \<and> rate_per_annotation r = c \<and>
         py_mul (PyInt n) c = Inr (subtotal r))) \<and>
   (py_bool c \<and>
    \<not> (case c of PyInt i \<Rightarrow> n \<le> 10000 \<or> \<bar>n * i\<bar> < 2 ^ 1024 - 2 ^ 970
               | PyFloat x \<Rightarrow> \<bar>n\<bar> < 2 ^ 1024 - 2 ^ 970) \<longrightarrow>
    calculate_project_cost n (Some c) = None) \<and>
   (\<not> py_bool c \<longrightarrow> calculate_project_cost n (Some c) = calculate_project_cost n None)"
proof (intro conjI impI)
  assume a: "py_bool c \<and>
    (case c of PyInt i \<Rightarrow> n \<le> 10000 \<or> \<bar>n * i\<bar> < 2 ^ 1024 - 2 ^ 970
             | PyFloat x \<Rightarrow> \<bar>n\<bar> < 2 ^ 1024 - 2 ^ 970)"
  then have g: "custom_rate_given (Some c) = Some c" by (simp add: custom_rate_given_def)
  from a have "case custom_rate_given (Some c) of
       Some (PyInt i) \<Rightarrow> n \<le> 10000 \<or> \<bar>n * i\<bar> < 2 ^ 1024 - 2 ^ 970
     | _ \<Rightarrow> \<bar>n\<bar> < 2 ^ 1024 - 2 ^ 970"
    by (simp add: g split: pynum.splits)
  from project_cost_fields [OF this]
  show "\<exists>r. calculate_project_cost n (Some c) = Some r \<and>
         tier r = ''custom'' \<and> rate_per_annotation r = c \<and>
         py_mul (PyInt n) c = Inr (subtotal r)"
    by (auto simp: g)
next
  assume a: "py_bool c \<and>
    \<not> (case c of PyInt i \<Rightarrow> n \<le> 10000 \<or> \<bar>n * i\<bar> < 2 ^ 1024 - 2 ^ 970
               | PyFloat x \<Rightarrow> \<bar>n\<bar> < 2 ^ 1024 - 2 ^ 970)"
  then have g: "custom_rate_given (Some c) = Some c" by (simp add: custom_rate_given_def)
  from a have "\<not> (case custom_rate_given (Some c) of
       Some (PyInt i) \<Rightarrow> n \<le> 10000 \<or> \<bar>n * i\<bar> < 2 ^ 1024 - 2 ^ 970
     | _ \<Rightarrow> \<bar>n\<bar> < 2 ^ 1024 - 2 ^ 970)"
    by (simp add: g split: pynum.splits)
  then show "calculate_project_cost n (Some c) = None"
    by (rule project_cost_none)
next
  assume "\<not> py_bool c"
  then show "calculate_project_cost n (Some c) = calculate_project_cost n None"
    by (rule custom_rate_zero)
qed

theorem custom_rate_applied_witness:
  "map_option tier (calculate_project_cost 100 (Some (PyFloat (float_literal 2 10)))) =
     Some ''custom'' \<and>
   map_option rate_per_annotation (calculate_project_cost 100 (Some (PyFloat (float_literal 2 10)))) =
     Some (PyFloat (float_literal 2 10)) \<and>
   map_option tier (calculate_project_cost 60000 (Some (PyInt 2))) = Some ''custom'' \<and>
   map_option subtotal (calculate_project_cost 60000 (Some (PyInt 2))) = Some (PyInt 120000) \<and>
   calculate_project_cost 60000 (Some (PyInt (10 ^ 400))) = None \<and>
   calculate_project_cost 100 (Some (PyInt 0)) = calculate_project_cost 100 None"
proof -
  have f: "py_bool (PyFloat (float_literal 2 10))" by (simp add: binary64_eval)
  have a: "map_option tier (calculate_project_cost 100 (Some (PyFloat (float_literal 2 10)))) =
     Some ''custom'' \<and>
   map_option rate_per_annotation (calculate_project_cost 100 (Some (PyFloat (float_literal 2 10)))) =
     Some (PyFloat (float_literal 2 10))"
    using custom_rate_applied [where c = "PyFloat (float_literal 2 10)" and n = 100] f by auto
  have b: "map_option tier (calculate_project_cost 60000 (Some (PyInt 2))) = Some ''custom'' \<and>
   map_option subtotal (calculate_project_cost 60000 (Some (PyInt 2))) = Some (PyInt 120000)"
    using custom_rate_applied [where c = "PyInt 2" and n = 60000] by auto
  have c: "calculate_project_cost 60000 (Some (PyInt (10 ^ 400))) = None"
    using custom_rate_applied [where c = "PyInt (10 ^ 400)" and n = 60000] by simp
  have d: "calculate_project_cost 100 (Some (PyInt 0)) = calculate_project_cost 100 None"
    using custom_rate_applied [where c = "PyInt 0" and n = 100] by simp
  from a b c d show ?thesis by simp
qed

theorem custom_rate_applied_counterexample:
  "map_option tier (calculate_project_cost 100 (Some (PyFloat (float_literal 0 1)))) =
     Some ''starter'' \<and>
   map_option rate_per_annotation (calculate_project_cost 100 (Some (PyFloat (float_literal 0 1)))) =
     Some (PyFloat (float_literal 15 100)) \<and>
   float_literal 15 100 \<noteq> float_literal 0 1 \<and>
   calculate_project_cost (2 ^ 1024) (Some (PyFloat (float_literal 2 10))) = None"
proof -
  have z: "float_literal 0 1 = Finite 0 (- 1074)"
    by (simp add: float_literal_def round_to_binary64_def)
  have g: "custom_rate_given (Some (PyFloat (float_literal 0 1))) = None"
    by (simp add: custom_rate_given_def z)
  have "case custom_rate_given (Some (PyFloat (float_literal 0 1))) of
       Some (PyInt c) \<Rightarrow> 100 \<le> 10000 \<or> \<bar>100 * c\<bar> < 2 ^ 1024 - 2 ^ 970
     | _ \<Rightarrow> \<bar>100 :: int\<bar> < 2 ^ 1024 - 2 ^ 970"
    by (simp add: g)
  from project_cost_fields [OF this]
  have "map_option tier (calculate_project_cost 100 (Some (PyFloat (float_literal 0 1)))) =
          Some ''starter''"
    and "map_option rate_per_annotation
           (calculate_project_cost 100 (Some (PyFloat (float_literal 0 1)))) =
           Some (PyFloat (float_literal 15 100))"
    by (auto simp: g select_tier_def)
  moreover have "float_literal 15 100 \<noteq> float_literal 0 1"
    by (simp add: z rate_starter)
  moreover have "calculate_project_cost (2 ^ 1024) (Some (PyFloat (float_literal 2 10))) = None"
  proof (rule project_cost_none)
    have "py_bool (PyFloat (float_literal 2 10))" by (simp add: binary64_eval)
    then show "\<not> (case custom_rate_given (Some (PyFloat (float_literal 2 10))) of
       Some (PyInt c) \<Rightarrow> 2 ^ 1024 \<le> 10000 \<or> \<bar>2 ^ 1024 * c\<bar> < 2 ^ 1024 - 2 ^ 970
     | _ \<Rightarrow> \<bar>2 ^ 1024 :: int\<bar> < 2 ^ 1024 - 2 ^ 970)"
      by (simp add: custom_rate_given_def)
  qed
  ultimately show ?thesis by simp
qed

section \<open>Claims about the progress of a project\<close>

lemma py_true_div_not_zero_division: "b \<noteq> 0 \<Longrightarrow> py_true_div a b \<noteq> Inl ZeroDivisionError"
  by (simp add: py_true_div_def split: pyfloat.split)

lemma long_as_double_not_zero_division: "long_as_double n \<noteq> Inl ZeroDivisionError"
  by (simp add: long_as_double_def split: pyfloat.split)

lemma long_as_double_100: "long_as_double 100 = Inr (float_literal 100 1)"
  by (simp add: binary64_eval)

text \<open>
  C7.  For every project with \<open>total_items == 0\<close> the property is 0, whatever
  \<open>completed_items\<close> holds (\<open>None\<close> included); evaluating the property never raises
  \<open>ZeroDivisionError\<close>; and with \<open>total_items > 0\<close> it is
  \<open>(completed_items / total_items) * 100\<close>, the true division of the two integers
  followed by the float product with 100.
\<close>

theorem progress_percentage_guard:
  "(total_items p = Some 0 \<longrightarrow> progress_percentage p = Inr (PyInt 0)) \<and>
   progress_percentage p \<noteq> Inl ZeroDivisionError \<and>
   (\<forall>c t. completed_items p = Some c \<and> total_items p = Some t \<and> 0 < t \<longrightarrow>
      progress_percentage p =
        (case py_true_div c t of
           Inl err \<Rightarrow> Inl err
         | Inr q \<Rightarrow> Inr (PyFloat (float_mul q (float_literal 100 1)))))"
proof (intro conjI allI impI)
  assume "total_items p = Some 0"
  then show "progress_percentage p = Inr (PyInt 0)"
    by (simp add: progress_percentage_def)
next
  show "progress_percentage p \<noteq> Inl ZeroDivisionError"
  proof (cases "total_items p = Some 0")
    case True
    then show ?thesis by (simp add: progress_percentage_def)
  next
    case False
    then show ?thesis
      using py_true_div_not_zero_division
      by (auto simp: progress_percentage_def float_times_int_def long_as_double_100
               split: option.split sum.split)
  qed
next
  fix c t
  assume "completed_items p = Some c \<and> total_items p = Some t \<and> 0 < t"
  then show "progress_percentage p =
        (case py_true_div c t of
           Inl err \<Rightarrow> Inl err
         | Inr q \<Rightarrow> Inr (PyFloat (float_mul q (float_literal 100 1))))"
    by (simp add: progress_percentage_def float_times_int_def long_as_double_100 split: sum.split)
qed

text \<open>Two projects: one with no items, and one with one of three items completed, whose
  progress is the float that prints as 33.33333333333333.\<close>

theorem progress_percentage_guard_witness:
  "progress_percentage
     \<lparr>project_id = 1, project_organization_id = 1, total_items = Some 0,
      completed_items = Some 7, approved_items = Some 0\<rparr> = Inr (PyInt 0) \<and>
   progress_percentage
     \<lparr>project_id = 2, project_organization_id = 1, total_items = Some 3,
      completed_items = Some 1, approved_items = Some 0\<rparr>
     = Inr (PyFloat (Finite 4691249611844266 (- 47)))"
proof -
  have a: "progress_percentage
     \<lparr>project_id = 1, project_organization_id = 1, total_items = Some 0,
      completed_items = Some 7, approved_items = Some 0\<rparr> = Inr (PyInt 0)"
    using progress_percentage_guard
      [of "\<lparr>project_id = 1, project_organization_id = 1, total_items = Some 0,
            completed_items = Some 7, approved_items = Some 0\<rparr>"]
    by simp
  have d: "py_true_div 1 3 = Inr (Finite 6004799503160661 (- 54))"
    by (simp add: py_true_div_def binary64_eval)
  have m: "float_mul (Finite 6004799503160661 (- 54)) (float_literal 100 1)
             = Finite 4691249611844266 (- 47)"
    by (simp add: binary64_eval)
  have b: "progress_percentage
     \<lparr>project_id = 2, project_organization_id = 1, total_items = Some 3,
      completed_items = Some 1, approved_items = Some 0\<rparr>
     = Inr (PyFloat (Finite 4691249611844266 (- 47)))"
    using progress_percentage_guard
      [of "\<lparr>project_id = 2, project_organization_id = 1, total_items = Some 3,
            completed_items = Some 1, approved_items = Some 0\<rparr>"]
    by (simp add: d m del: float_mul.simps)
  from a b show ?thesis by simp
qed

section \<open>Claims about registration and login\<close>

lemmas string_eval = is_space_def py_strip_def is_upper_def is_lower_def is_digit_def
  upper_letters_def lower_letters_def lower_char_def py_lower_def is_alnum_def local_char_def
  domain_char_def email_pattern_def validate_email_def Let_def

lemmas json_eval = no_attribute_def subscript_def str_strip_def py_len_def falsy_def
  data_get_def quoted_def validate_password_def

lemmas auth_eval = register_def register_validate_def register_rows_def login_def
  login_checked_def message_response_def find_by_username_def find_by_email_def
  next_user_id_def next_org_id_def generate_token_def

lemmas example_defs = example_library_def empty_database_def ann_items_def ann_request_def
  ann_again_items_def ann_again_request_def ann_weak_items_def ann_weak_request_def
  acme_items_def acme_request_def blank_org_request_def ann_user_def bob_user_def ann_database_def
  deactivated_database_def deactivated_email_def login_items_def login_request_def

lemma py_lower_Nil: "py_lower s = [] \<longleftrightarrow> s = []"
  by (simp add: py_lower_def)




lemma subscript_Inr: "subscript d k = Inr v \<longleftrightarrow> d k = Some v"
  by (simp add: subscript_def split: option.splits)


lemma first_missing_required:
  "first_missing d [''username'', ''email'', ''password''] = None \<longleftrightarrow>
     \<not> falsy (d ''username'') \<and> \<not> falsy (d ''email'') \<and> \<not> falsy (d ''password'')"
  by simp

lemma not_falsy: "\<not> falsy v \<longleftrightarrow> (\<exists>x. v = Some x \<and> truthy x)"
  by (cases v) (simp_all add: falsy_def)

lemma register_validate_missing:
  assumes "falsy (d ''username'') \<or> falsy (d ''email'') \<or> falsy (d ''password'')"
  shows "\<exists>msg. register_validate lib d = Returns (message_response 400 msg)"
  using assms by (auto simp: register_validate_def)

lemma register_validate_present:
  assumes "d ''username'' = Some u" and "truthy u"
    and "d ''email'' = Some e" and "truthy e"
    and "d ''password'' = Some p" and "truthy p"
  shows "register_validate lib d =
     (case str_strip u of Inl err \<Rightarrow> Raises err | Inr name \<Rightarrow>
      case str_strip e of Inl err \<Rightarrow> Raises err | Inr stripped \<Rightarrow>
        if \<not> validate_email (py_lower stripped)
          then Returns (message_response 400 ''Invalid email format'')
        else case validate_password lib p of
               Inl err \<Rightarrow> Raises err
             | Inr (False, msg) \<Rightarrow> Returns (message_response 400 msg)
             | Inr (True, msg) \<Rightarrow> Value (name, py_lower stripped, p))"
  using assms by (simp add: register_validate_def falsy_def subscript_def split: sum.split)

lemma register_validate_Returns:
  assumes "register_validate lib d = Returns r"
  shows "status r = 400"
proof (cases "falsy (d ''username'') \<or> falsy (d ''email'') \<or> falsy (d ''password'')")
  case True
  from register_validate_missing [OF True, of lib] assms show ?thesis
    by (auto simp: message_response_def)
next
  case False
  then obtain u e p where
    f: "d ''username'' = Some u" "truthy u" "d ''email'' = Some e" "truthy e"
       "d ''password'' = Some p" "truthy p"
    by (auto simp: not_falsy)
  from assms show ?thesis
    unfolding register_validate_present [OF f]
    by (auto simp: message_response_def split: sum.splits if_splits prod.splits bool.splits)
qed




lemma register_rows_Inr:
  assumes "register_rows lib now d db name mail p = Inr (r, db')"
  shows "\<exists>u org. str_strip (data_get d ''organization_name'' (JStr [])) = Inr org \<and>
           status r = 201 \<and> response_user r = Some u \<and> users db' = users db @ [u] \<and>
           username u = name \<and> email u = mail \<and> user_id u = next_user_id db \<and>
           (org = [] \<longrightarrow>
              role u = CLIENT_USER \<and> organization_id u = None \<and>
              organizations db' = organizations db) \<and>
           (org \<noteq> [] \<longrightarrow>
              role u = CLIENT_ADMIN \<and> organization_id u = Some (next_org_id db) \<and>
              organizations db' = organizations db @
                [\<lparr>org_id = next_org_id db, org_name = org,
                  contact_email = mail, org_is_active = True\<rparr>])"
  using assms
  by (auto simp: register_rows_def Let_def split: sum.splits if_splits)


lemma register_created:
  assumes "register lib now data db = (r, db')" and "status r = 201"
  shows "\<exists>items name mail p u org.
           data = JObject items \<and>
           register_validate lib (map_of items) = Value (name, mail, p) \<and>
           find_by_username db name = None \<and> find_by_email db mail = None \<and>
           str_strip (data_get (map_of items) ''organization_name'' (JStr [])) = Inr org \<and>
           response_user r = Some u \<and> users db' = users db @ [u] \<and>
           username u = name \<and> email u = mail \<and> user_id u = next_user_id db \<and>
           (org = [] \<longrightarrow>
              role u = CLIENT_USER \<and> organization_id u = None \<and>
              organizations db' = organizations db) \<and>
           (org \<noteq> [] \<longrightarrow>
              role u = CLIENT_ADMIN \<and> organization_id u = Some (next_org_id db) \<and>
              organizations db' = organizations db @
                [\<lparr>org_id = next_org_id db, org_name = org,
                  contact_email = mail, org_is_active = True\<rparr>])"
proof (cases data)
  case (JObject items)
  show ?thesis
  proof (cases "register_validate lib (map_of items)")
    case (Raises err)
    with JObject assms show ?thesis by (auto simp: register_def message_response_def)
  next
    case (Returns resp)
    with JObject assms register_validate_Returns [OF Returns] show ?thesis
      by (auto simp: register_def)
  next
    case (Value triple)
    obtain name mail p where t: "triple = (name, mail, p)" by (cases triple) auto
    from assms JObject Value t
    have free: "find_by_username db name = None" "find_by_email db mail = None"
      and rows: "register_rows lib now (map_of items) db name mail p = Inr (r, db')"
      by (auto simp: register_def message_response_def split: if_splits sum.splits)
    from register_rows_Inr [OF rows] JObject Value t free show ?thesis by auto
  qed
qed (use assms in \<open>auto simp: register_def message_response_def\<close>)


lemma fold_max_ge: "(a::int) \<le> fold max xs a"
proof (induction xs arbitrary: a)
  case Nil
  then show ?case by simp
next
  case (Cons y ys)
  have "a \<le> max y a" by simp
  also have "\<dots> \<le> fold max ys (max y a)" by (rule Cons.IH)
  finally show ?case by simp
qed

lemma fold_max_member: "(x::int) \<in> set xs \<Longrightarrow> x \<le> fold max xs a"
proof (induction xs arbitrary: a)
  case Nil
  then show ?case by simp
next
  case (Cons y ys)
  show ?case
  proof (cases "x = y")
    case True
    have "x \<le> max y a" using True by simp
    also have "\<dots> \<le> fold max ys (max y a)" by (rule fold_max_ge)
    finally show ?thesis by simp
  next
    case False
    with Cons.prems have "x \<in> set ys" by simp
    then show ?thesis by (simp add: Cons.IH)
  qed
qed

lemma next_org_id_fresh: "next_org_id db \<notin> org_id ` set (organizations db)"
proof
  assume "next_org_id db \<in> org_id ` set (organizations db)"
  then have "next_org_id db \<in> set (map org_id (organizations db))" by simp
  then have "next_org_id db \<le> fold max (map org_id (organizations db)) 0"
    by (rule fold_max_member)
  then show False by (simp add: next_org_id_def)
qed

lemma ann_registered:
  "register example_library 10 ann_request empty_database =
     (\<lparr>status = 201, message = ''User registered successfully'',
       response_user = Some ann_user, token = Some ''token''\<rparr>, ann_database)"
  by (simp add: auth_eval json_eval example_defs string_eval)





text \<open>
  C9 (as amended).  Every registration that succeeds has a body that is a dict and appends
  one user.  Its organization name is absent or a string.  When that string is empty
  after \<open>strip()\<close> (or absent), the user has role \<open>CLIENT_USER\<close>, no organization, and the
  organization table is unchanged.  When it is not empty after \<open>strip()\<close>, the same call
  appends one organization with the stripped name and a new id, the user's
  \<open>organization_id\<close> is that id, and the role is \<open>CLIENT_ADMIN\<close>.
\<close>

theorem register_role_assignment:
  assumes "register lib now data db = (r, db')" and "status r = 201"
  shows "\<exists>items u name.
           data = JObject items \<and>
           str_strip (data_get (map_of items) ''organization_name'' (JStr [])) = Inr name \<and>
           response_user r = Some u \<and> users db' = users db @ [u] \<and>
           (name = [] \<longrightarrow>
              role u = CLIENT_USER \<and> organization_id u = None \<and>
              organizations db' = organizations db) \<and>
           (name \<noteq> [] \<longrightarrow>
              role u = CLIENT_ADMIN \<and>
              (\<exists>org. organizations db' = organizations db @ [org] \<and>
                     org_name org = name \<and>
                     org_id org \<notin> org_id ` set (organizations db) \<and>
                     organization_id u = Some (org_id org)))"
proof -
  from register_created [OF assms] obtain items mail u name where
    i: "data = JObject items"
       "str_strip (data_get (map_of items) ''organization_name'' (JStr [])) = Inr name"
    and u: "response_user r = Some u" "users db' = users db @ [u]"
    and plain: "name = [] \<longrightarrow>
              role u = CLIENT_USER \<and> organization_id u = None \<and>
              organizations db' = organizations db"
    and org: "name \<noteq> [] \<longrightarrow>
              role u = CLIENT_ADMIN \<and> organization_id u = Some (next_org_id db) \<and>
              organizations db' = organizations db @
                [\<lparr>org_id = next_org_id db, org_name = name,
                  contact_email = mail, org_is_active = True\<rparr>]"
    by blast
  have "name \<noteq> [] \<longrightarrow>
          role u = CLIENT_ADMIN \<and>
          (\<exists>org. organizations db' = organizations db @ [org] \<and>
                 org_name org = name \<and>
                 org_id org \<notin> org_id ` set (organizations db) \<and>
                 organization_id u = Some (org_id org))"
    using org next_org_id_fresh [of db] by auto
  with i u plain show ?thesis by blast
qed

lemma acme_registered:
  "register example_library 50 acme_request ann_database =
     (\<lparr>status = 201, message = ''User registered successfully'',
       response_user = Some (bob_user\<lparr>role := CLIENT_ADMIN, organization_id := Some 1\<rparr>),
       token = Some ''token''\<rparr>,
      \<lparr>users = [ann_user, bob_user\<lparr>role := CLIENT_ADMIN, organization_id := Some 1\<rparr>],
       organizations = [\<lparr>org_id = 1, org_name = ''Acme'', contact_email = ''bob@acme.io'',
                         org_is_active = True\<rparr>]\<rparr>)"
  by (simp add: auth_eval json_eval example_defs string_eval)

theorem register_role_assignment_witness:
  "map_option role (response_user (fst (register example_library 10 ann_request empty_database)))
     = Some CLIENT_USER \<and>
   map_option role (response_user (fst (register example_library 50 acme_request ann_database)))
     = Some CLIENT_ADMIN \<and>
   map_option organization_id
     (response_user (fst (register example_library 50 acme_request ann_database)))
     = Some (Some 1) \<and>
   map org_name (organizations (snd (register example_library 50 acme_request ann_database)))
     = [''Acme'']"
proof -
  have n: "str_strip (data_get (map_of ann_items) ''organization_name'' (JStr [])) = Inr []"
    by (simp add: ann_items_def json_eval py_strip_def)
  have m: "str_strip (data_get (map_of acme_items) ''organization_name'' (JStr [])) = Inr ''Acme''"
    by (simp add: acme_items_def json_eval string_eval)
  from register_role_assignment [OF ann_registered] n
  have a: "role ann_user = CLIENT_USER"
    by (auto simp: ann_request_def)
  from register_role_assignment [OF acme_registered] m
  have b: "role (bob_user\<lparr>role := CLIENT_ADMIN, organization_id := Some 1\<rparr>) = CLIENT_ADMIN"
    by (auto simp: acme_request_def)
  from a b show ?thesis by (simp add: ann_registered acme_registered)
qed

theorem register_role_assignment_counterexample:
  "''   '' \<noteq> [] \<and>
   register example_library 50 blank_org_request ann_database =
     (\<lparr>status = 201, message = ''User registered successfully'',
       response_user = Some bob_user, token = Some ''token''\<rparr>,
      \<lparr>users = [ann_user, bob_user], organizations = []\<rparr>) \<and>
   role bob_user = CLIENT_USER \<and> organization_id bob_user = None"
  by (simp add: auth_eval json_eval example_defs string_eval)









section \<open>Claims about the file upload\<close>

lemmas upload_eval = upload_files_def upload_one_def upload_error_def find_project_def
  find_dataset_def int_of_text_def digit_value_def model_constructor_def class_attribute_def
  quoted_def Dataset_attributes_def DataItem_attributes_def allowed_file_def extension_def
  ALL_ALLOWED_EXTENSIONS_def ALLOWED_EXTENSIONS_def data_get_def

lemma DataItem_has_no_file_size:
  "class_attribute ''DataItem'' DataItem_attributes ''file_size'' =
     Inl (''type object '' @ quoted ''DataItem'' @ '' has no attribute '' @ quoted ''file_size'')"
  by (simp add: class_attribute_def DataItem_attributes_def)

lemma upload_files_never_200:
  "upload_status (fst (upload_files s3_upload stamp current_user req db)) \<noteq> 200 \<and>
   fst (snd (upload_files s3_upload stamp current_user req db)) = db"
  by (simp add: upload_files_def DataItem_has_no_file_size upload_error_def Let_def
        split: option.split sum.split)

text \<open>
  C8.  The request of the claim: one file with an allowed extension (\<open>photo.png\<close>) and one
  with a disallowed extension (\<open>tool.exe\<close>), for a project of the caller's organization.
  The claim expects status 200 with one entry in each list and one stored row.  The route
  answers 500 and stores no row, with the dataset already there and without it, while the
  allowed file has been written to the bucket.
\<close>

theorem upload_mixed_request_fails:
  "upload_files example_s3 ''20250101_120000'' member_user mixed_request example_tables =
     (upload_error 500
        (''Upload failed: type object '' @ quoted ''DataItem'' @ '' has no attribute '' @
         quoted ''file_size''),
      example_tables, [''projects/7/photo.png'']) \<and>
   upload_files example_s3 ''20250101_120000'' member_user mixed_request
       (example_tables\<lparr>datasets := []\<rparr>) =
     (upload_error 500
        (''Upload failed: '' @ quoted ''data_type'' @ '' is an invalid keyword argument for Dataset''),
      example_tables\<lparr>datasets := []\<rparr>, [])"
  by (simp add: upload_eval example_s3_def mixed_request_def example_tables_def member_user_def
        ann_user_def string_eval)

lemma upload_one_allowed_file_is_failed:
  "upload_one example_s3 ''7'' 3 \<lparr>upload_filename = ''photo.png'', upload_content = ''abc''\<rparr>
     \<lparr>uploaded = [], failed = [], added = [], stored = []\<rparr> =
   \<lparr>uploaded = [],
    failed = [(''photo.png'', quoted ''file_size'' @ '' is an invalid keyword argument for DataItem'')],
    added = [], stored = [''projects/7/photo.png'']\<rparr>"
  by (simp add: upload_eval example_s3_def string_eval)

end

